theory Spec2Isabelle
  imports Complex_Main "HOL-Library.Word"
begin

unbundle bit_operations_syntax

section \<open>Numbers and the host library\<close>

text \<open>
  The C++ type \<open>double\<close> and the host's fixed-point \<open>simtime_t\<close> are modelled as
  exact real numbers: rounding, the picosecond grid and the range checks of the host's
  \<open>SimTime\<close> class are outside the model. A \<open>double\<close> that may hold \<open>NAN\<close>
  (a reading that was never produced) is a \<open>real option\<close>, \<open>None\<close> being \<open>NAN\<close>.
  \<open>int\<close> members on which the code does arithmetic are 32-bit words, \<open>size_t\<close>
  and \<open>intval_t\<close> are 64-bit words. The presence bitmap is an \<open>int\<close> on which only
  bitwise operations are done.
\<close>

type_synonym simtime_t = real
type_synonym double = real

text \<open>
  Modelled from the spec: the "disabled sentinel" \<open>SIMTIME_MAX\<close>, the host's largest
  representable time. The host's header is not part of the repository; the value is the
  largest signed 64-bit integer at the host's default resolution of a picosecond. The
  theorems do not depend on the value, only the example data do.
\<close>

definition SIMTIME_MAX :: simtime_t where
  "SIMTIME_MAX = 9223372036854775807 / 1000000000000"

text \<open>
  Modelled from the spec: the host's \<open>uniform(a, b)\<close> ("draws a jitter offset uniformly
  from [-interval*jitterFraction, +interval*jitterFraction]") and \<open>normal(mean, stddev)\<close>
  (additive Gaussian noise). The generator's raw output is an explicit argument: a unit
  draw \<open>u\<close> with \<open>0 \<le> u < 1\<close> for \<open>uniform\<close>, a standard normal variate \<open>z\<close> for
  \<open>normal\<close>.
\<close>

definition uniform :: "real \<Rightarrow> double \<Rightarrow> double \<Rightarrow> double" where
  "uniform u a b = a + u * (b - a)"

definition normal :: "real \<Rightarrow> double \<Rightarrow> double \<Rightarrow> double" where
  "normal z mean stddev = mean + stddev * z"

text \<open>
  Modelled from the spec: \<open>math::dBmW2mW\<close> of the network library ("decibel-milliwatts,
  convertible to linear milliwatts").
\<close>

definition dBmW2mW :: "double \<Rightarrow> double" where
  "dBmW2mW dBm = 10 powr (dBm / 10)"

section \<open>WeissbergerPathLoss\<close>

text \<open>
  \<open>computePathLoss\<close> of class \<open>WeissbergerPathLoss\<close>. The parent's
  \<open>FreeSpacePathLoss::computePathLoss\<close> is not part of the repository and is the
  parameter \<open>fspl_parent\<close>; \<open>vegDepth\<close> is the module parameter
  \<open>vegetationDepth\<close>; \<open>std::pow\<close> is \<open>powr\<close>.
\<close>

definition computePathLoss ::
  "(double \<Rightarrow> double \<Rightarrow> double) \<Rightarrow> double \<Rightarrow> double \<Rightarrow> double \<Rightarrow> double" where
  "computePathLoss fspl_parent vegDepth distance frequency =
     (let fspl = fspl_parent distance frequency;
          fGHz = frequency / 1000000000;
          Lveg = (if vegDepth > 0 then
                    (if vegDepth \<le> 14
                     then 0.45 * (fGHz powr 0.284) * vegDepth
                     else 1.33 * (fGHz powr 0.284) * (vegDepth powr 0.588))
                  else 0);
          totalLoss = fspl + Lveg
      in totalLoss)"

section \<open>Data of wlam\_sensor\_app\<close>

datatype SensorID = SID_TEMPERATURE | SID_NO2 | SID_HUMIDITY | SID_COUNTER | SID_COUNT

text \<open>The enumerators' values, which index the array \<open>sensors\<close>.\<close>

fun sid_value :: "SensorID \<Rightarrow> nat" where
  "sid_value SID_TEMPERATURE = 0"
| "sid_value SID_NO2 = 1"
| "sid_value SID_HUMIDITY = 2"
| "sid_value SID_COUNTER = 3"
| "sid_value SID_COUNT = 4"

record SensorState =
  sensor_id :: SensorID
  interval :: simtime_t
  nextDue :: simtime_t
  lastValue :: "double option"
  counter :: "32 word"
  isCounter :: bool

text \<open>
  The external radio module: the five fields of \<open>LoRaRadio\<close> the application
  touches. The member \<open>loRaRadio\<close> of the application is a pointer to it; in the model
  \<open>None\<close> is \<open>nullptr\<close> and \<open>Some r\<close> is a pointer to the radio whose live fields
  are \<open>r\<close>, so a write through the pointer changes \<open>r\<close>.
\<close>

record LoRaRadio =
  loRaTP :: double
  loRaCF :: double
  loRaSF :: int
  loRaBW :: double
  loRaCR :: int

record LoRaTag =
  getSpreadFactor :: int
  getBandwidth :: double
  getCenterFrequency :: double
  getPower :: double
  getCodeRendundance :: int

record LoRaSensorPacket =
  getBitmap :: int
  getTemperature :: "double option"
  getNo2 :: "double option"
  getHumidity :: "double option"
  getCounter :: "32 word"
  getNodeId :: string
  getCreatedAt :: simtime_t
  getChunkLength :: "64 word"

record Packet =
  getName :: string
  payload :: LoRaSensorPacket
  loRaTag :: "LoRaTag option"

datatype simsignal = sigTemp | sigHum | sigNO2 | sigCounter | sigPktSent

datatype sigvalue = DoubleValue double | LongValue int

text \<open>What a callback does to the outside: signals emitted and packets sent on a gate.\<close>

datatype effect = Emit simsignal sigvalue | Send Packet string

text \<open>
  Constants of headers that are not part of the repository, taken as parameters: the
  presence bits \<open>SB_*\<close> of the generated packet header and the network library's
  stage number \<open>INITSTAGE_APPLICATION_LAYER\<close>.
\<close>

record host_consts =
  SB_NONE :: int
  SB_TEMPERATURE :: int
  SB_NO2 :: int
  SB_HUMIDITY :: int
  SB_COUNTER :: int
  INITSTAGE_APPLICATION_LAYER :: int

text \<open>
  Modelled from the spec: "a presence bitmap (one bit per quantity)". The empty bitmap
  is zero, each presence bit is non-zero, and no two of them share a bit.
\<close>

definition presence_bits :: "host_consts \<Rightarrow> bool" where
  "presence_bits hc =
     (SB_NONE hc = 0 \<and>
      SB_TEMPERATURE hc \<noteq> 0 \<and> SB_NO2 hc \<noteq> 0 \<and> SB_HUMIDITY hc \<noteq> 0 \<and> SB_COUNTER hc \<noteq> 0 \<and>
      SB_TEMPERATURE hc AND SB_NO2 hc = 0 \<and>
      SB_TEMPERATURE hc AND SB_HUMIDITY hc = 0 \<and>
      SB_TEMPERATURE hc AND SB_COUNTER hc = 0 \<and>
      SB_NO2 hc AND SB_HUMIDITY hc = 0 \<and>
      SB_NO2 hc AND SB_COUNTER hc = 0 \<and>
      SB_HUMIDITY hc AND SB_COUNTER hc = 0)"

text \<open>
  The module parameters read with \<open>par("...")\<close>, the module's full path, and the
  result of the lookup of the sibling radio module (\<open>None\<close> when the parent, the
  \<open>LoRaNic\<close> submodule or its \<open>radio\<close> is missing or is not a \<open>LoRaRadio\<close>).
\<close>

record params =
  par_temperatureInterval :: double
  par_no2Interval :: double
  par_humidityInterval :: double
  par_counterInterval :: double
  par_intervalJitterFraction :: double
  par_baseTemperature :: double
  par_amplitudeTemperature :: double
  par_baseHumidity :: double
  par_amplitudeHumidity :: double
  par_baseNO2 :: double
  par_amplitudeNO2 :: double
  par_initialLoRaTP :: double
  par_initialLoRaCF :: double
  par_initialLoRaSF :: int
  par_initialLoRaBW :: double
  par_initialLoRaCR :: int
  par_basePayloadBytes :: "64 word"
  par_counterPayloadBytes :: "64 word"
  fullPath :: string
  radioModule :: "LoRaRadio option"

text \<open>
  The members of class \<open>wlam_sensor_app\<close>, and the host state the module reads and
  drives: \<open>scheduledAt\<close> is the arrival time of the self-message \<open>scheduler\<close> when
  it is scheduled, \<open>unif\<close> and \<open>gauss\<close> are the streams of raw draws that the calls
  of \<open>uniform\<close> and \<open>normal\<close> still have to consume.
\<close>

record wlam_sensor_app =
  scheduledAt :: "simtime_t option"
  sensors :: "SensorState list"
  jitterFrac :: double
  baseTemp :: double
  ampTemp :: double
  baseNO2 :: double
  ampNO2 :: double
  baseHum :: double
  ampHum :: double
  initTPdBm :: double
  initCFHz :: double
  initSF :: int
  initBWHZ :: double
  initCR :: int
  basePayloadBytes :: "32 word"
  loRaRadio :: "LoRaRadio option"
  unif :: "nat \<Rightarrow> real"
  gauss :: "nat \<Rightarrow> real"

text \<open>
  The local variables of \<open>sampleAndSendIfDue\<close>, and the state its loop works on: the
  effects so far (in order), the locals and the module.
\<close>

record locals =
  bitmap :: int
  temperature :: "double option"
  humidity :: "double option"
  no2 :: "double option"
  counterVal :: "32 word"

record loop_state =
  out :: "effect list"
  vars :: locals
  app :: wlam_sensor_app

section \<open>Operations of wlam\_sensor\_app\<close>

text \<open>One raw draw is taken from the head of its stream.\<close>

definition draw_unif :: "wlam_sensor_app \<Rightarrow> real \<times> wlam_sensor_app" where
  "draw_unif w = (unif w 0, w\<lparr>unif := (\<lambda>n. unif w (Suc n))\<rparr>)"

definition draw_gauss :: "wlam_sensor_app \<Rightarrow> real \<times> wlam_sensor_app" where
  "draw_gauss w = (gauss w 0, w\<lparr>gauss := (\<lambda>n. gauss w (Suc n))\<rparr>)"

text \<open>\<open>sensors[i]\<close> is replaced by \<open>f\<close> of it.\<close>

definition set_sensor ::
  "nat \<Rightarrow> (SensorState \<Rightarrow> SensorState) \<Rightarrow> wlam_sensor_app \<Rightarrow> wlam_sensor_app" where
  "set_sensor i f w = w\<lparr>sensors := (sensors w)[i := f (sensors w ! i)]\<rparr>"

text \<open>
  \<open>initSensor(id, interval, isCounter)\<close>; \<open>now\<close> is \<open>simTime()\<close>. It is called with
  the four quantities only, whose values are inside the array.
\<close>

definition initSensor ::
  "simtime_t \<Rightarrow> SensorID \<Rightarrow> double \<Rightarrow> bool \<Rightarrow> wlam_sensor_app \<Rightarrow> wlam_sensor_app" where
  "initSensor now sid ival isCtr w =
     (let i = sid_value sid;
          w0 = set_sensor i (\<lambda>s. s\<lparr>sensor_id := sid, interval := ival, isCounter := isCtr,
                                   lastValue := None, counter := 0\<rparr>) w
      in if ival > 0 then
           (let jitter = ival * jitterFrac w0;
                (u, w1) = draw_unif w0
            in set_sensor i (\<lambda>s. s\<lparr>nextDue := now + ival + uniform u (- jitter) jitter\<rparr>) w1)
         else set_sensor i (\<lambda>s. s\<lparr>nextDue := SIMTIME_MAX\<rparr>) w0)"

definition earliestNextDue :: "wlam_sensor_app \<Rightarrow> simtime_t" where
  "earliestNextDue w =
     fold (\<lambda>i e. if nextDue (sensors w ! i) < e then nextDue (sensors w ! i) else e)
       [0..<sid_value SID_COUNT] SIMTIME_MAX"

definition scheduleNext :: "wlam_sensor_app \<Rightarrow> wlam_sensor_app" where
  "scheduleNext w =
     (let n = earliestNextDue w in
      if n < SIMTIME_MAX then w\<lparr>scheduledAt := Some n\<rparr> else w)"

definition applyInitialLoRaParams :: "wlam_sensor_app \<Rightarrow> wlam_sensor_app" where
  "applyInitialLoRaParams w =
     (case loRaRadio w of
        None \<Rightarrow> w
      | Some r \<Rightarrow>
          w\<lparr>loRaRadio := Some (r\<lparr>loRaTP := initTPdBm w, loRaCF := initCFHz w, loRaSF := initSF w,
                                 loRaBW := initBWHZ w, loRaCR := initCR w\<rparr>)\<rparr>)"

text \<open>
  \<open>initialize(stage)\<close>. The radio pointer is assigned only when the lookup finds a
  radio; the object is default-constructed before, with \<open>loRaRadio = nullptr\<close>.
\<close>

definition initialize ::
  "host_consts \<Rightarrow> params \<Rightarrow> simtime_t \<Rightarrow> int \<Rightarrow> wlam_sensor_app \<Rightarrow> wlam_sensor_app" where
  "initialize hc p now stage w =
     (if stage = 0 then
        (let tInt = par_temperatureInterval p;
             nInt = par_no2Interval p;
             hInt = par_humidityInterval p;
             cInt = par_counterInterval p;
             w1 = w\<lparr>jitterFrac := par_intervalJitterFraction p,
                    baseTemp := par_baseTemperature p, ampTemp := par_amplitudeTemperature p,
                    baseHum := par_baseHumidity p, ampHum := par_amplitudeHumidity p,
                    baseNO2 := par_baseNO2 p, ampNO2 := par_amplitudeNO2 p,
                    initTPdBm := par_initialLoRaTP p, initCFHz := par_initialLoRaCF p,
                    initSF := par_initialLoRaSF p, initBWHZ := par_initialLoRaBW p,
                    initCR := par_initialLoRaCR p,
                    basePayloadBytes := ucast (par_basePayloadBytes p),
                    loRaRadio := (case radioModule p of None \<Rightarrow> loRaRadio w | Some r \<Rightarrow> Some r)\<rparr>
         in initSensor now SID_COUNTER cInt True
              (initSensor now SID_HUMIDITY hInt False
                 (initSensor now SID_NO2 nInt False
                    (initSensor now SID_TEMPERATURE tInt False w1))))
      else if stage = INITSTAGE_APPLICATION_LAYER hc then
        scheduleNext (applyInitialLoRaParams w)
      else w)"

definition genTemperature :: "simtime_t \<Rightarrow> wlam_sensor_app \<Rightarrow> double \<times> wlam_sensor_app" where
  "genTemperature now w =
     (let hrs = now / 3600;
          (z, w1) = draw_gauss w
      in (baseTemp w + ampTemp w * sin (2 * pi * (hrs / 24)) + normal z 0 0.2, w1))"

definition genHumidity :: "simtime_t \<Rightarrow> wlam_sensor_app \<Rightarrow> double \<times> wlam_sensor_app" where
  "genHumidity now w =
     (let hrs = now / 3600;
          (z, w1) = draw_gauss w
      in (baseHum w + ampHum w * sin (2 * pi * (hrs / 24) + pi / 4) + normal z 0 0.5, w1))"

definition genNO2 :: "simtime_t \<Rightarrow> wlam_sensor_app \<Rightarrow> double \<times> wlam_sensor_app" where
  "genNO2 now w =
     (let hrs = now / 3600;
          (z, w1) = draw_gauss w
      in (baseNO2 w + ampNO2 w * (0.5 + 0.5 * sin (2 * pi * (hrs / 12))) + normal z 0 0.1, w1))"

text \<open>
  \<open>attachLoRaTag(pkt)\<close>: \<open>addTagIfAbsent\<close> and the five setters leave a tag with the
  radio's current fields.
\<close>

definition attachLoRaTag :: "wlam_sensor_app \<Rightarrow> Packet \<Rightarrow> Packet" where
  "attachLoRaTag w pkt =
     (case loRaRadio w of
        None \<Rightarrow> pkt
      | Some r \<Rightarrow>
          pkt\<lparr>loRaTag := Some \<lparr>getSpreadFactor = loRaSF r, getBandwidth = loRaBW r,
                                getCenterFrequency = loRaCF r, getPower = dBmW2mW (loRaTP r),
                                getCodeRendundance = loRaCR r\<rparr>\<rparr>)"

text \<open>The body of \<open>switch (s.id)\<close> for the sensor at index \<open>i\<close>.\<close>

definition sample :: "host_consts \<Rightarrow> simtime_t \<Rightarrow> nat \<Rightarrow> loop_state \<Rightarrow> loop_state" where
  "sample hc now i st =
     (case sensor_id (sensors (app st) ! i) of
        SID_TEMPERATURE \<Rightarrow>
          (let (t, w1) = genTemperature now (app st);
               (h, w2) = genHumidity now w1
           in st\<lparr>out := out st @ [Emit sigTemp (DoubleValue t), Emit sigHum (DoubleValue h)],
                 vars := (vars st)\<lparr>temperature := Some t, humidity := Some h,
                           bitmap := (bitmap (vars st) OR SB_TEMPERATURE hc) OR SB_HUMIDITY hc\<rparr>,
                 app := w2\<rparr>)
      | SID_NO2 \<Rightarrow>
          (let (n, w1) = genNO2 now (app st)
           in st\<lparr>out := out st @ [Emit sigNO2 (DoubleValue n)],
                 vars := (vars st)\<lparr>no2 := Some n, bitmap := bitmap (vars st) OR SB_NO2 hc\<rparr>,
                 app := set_sensor i (\<lambda>s. s\<lparr>lastValue := Some n\<rparr>) w1\<rparr>)
      | SID_HUMIDITY \<Rightarrow>
          (let (h, w1) = genHumidity now (app st)
           in st\<lparr>out := out st @ [Emit sigHum (DoubleValue h)],
                 vars := (vars st)\<lparr>humidity := Some h,
                           bitmap := bitmap (vars st) OR SB_HUMIDITY hc\<rparr>,
                 app := set_sensor i (\<lambda>s. s\<lparr>lastValue := Some h\<rparr>) w1\<rparr>)
      | SID_COUNTER \<Rightarrow>
          (let w1 = set_sensor i (\<lambda>s. s\<lparr>counter := counter s + 1\<rparr>) (app st);
               c = counter (sensors w1 ! i)
           in st\<lparr>out := out st @ [Emit sigCounter (LongValue (sint c))],
                 vars := (vars st)\<lparr>counterVal := c,
                           bitmap := bitmap (vars st) OR SB_COUNTER hc\<rparr>,
                 app := w1\<rparr>)
      | SID_COUNT \<Rightarrow> st)"

text \<open>The recomputation of \<open>s.nextDue\<close> after the switch.\<close>

definition reschedule :: "simtime_t \<Rightarrow> nat \<Rightarrow> wlam_sensor_app \<Rightarrow> wlam_sensor_app" where
  "reschedule now i w =
     (if interval (sensors w ! i) > 0 then
        (let jitter = interval (sensors w ! i) * jitterFrac w;
             (u, w1) = draw_unif w
         in set_sensor i
              (\<lambda>s. s\<lparr>nextDue := now + interval s + uniform u (- jitter) jitter\<rparr>) w1)
      else set_sensor i (\<lambda>s. s\<lparr>nextDue := SIMTIME_MAX\<rparr>) w)"

text \<open>One iteration of the loop over \<open>i\<close>, and the whole loop.\<close>

definition visit :: "host_consts \<Rightarrow> simtime_t \<Rightarrow> nat \<Rightarrow> loop_state \<Rightarrow> loop_state" where
  "visit hc now i st =
     (if nextDue (sensors (app st) ! i) \<le> now then
        (let st1 = sample hc now i st
         in st1\<lparr>app := reschedule now i (app st1)\<rparr>)
      else st)"

definition init_locals :: "host_consts \<Rightarrow> locals" where
  "init_locals hc =
     \<lparr>bitmap = SB_NONE hc, temperature = None, humidity = None, no2 = None, counterVal = 0\<rparr>"

definition scan_sensors :: "host_consts \<Rightarrow> simtime_t \<Rightarrow> wlam_sensor_app \<Rightarrow> loop_state" where
  "scan_sensors hc now w =
     fold (visit hc now) [0..<sid_value SID_COUNT] \<lparr>out = [], vars = init_locals hc, app = w\<rparr>"

definition sizeof_simtime_t :: "64 word" where
  "sizeof_simtime_t = 8"

definition sizeof_double :: "64 word" where
  "sizeof_double = 8"

text \<open>
  The size accounting: \<open>basePayloadBytes + 1\<close> is computed in \<open>int\<close> and converted to
  \<open>size_t\<close> by the addition of \<open>sizeof(simtime_t)\<close>.
\<close>

definition wire_bytes :: "host_consts \<Rightarrow> 32 word \<Rightarrow> 64 word \<Rightarrow> int \<Rightarrow> 64 word" where
  "wire_bytes hc base cpb bm =
     (let bytes = scast (base + 1) + sizeof_simtime_t;
          bytes = (if bm AND SB_TEMPERATURE hc \<noteq> 0 then bytes + sizeof_double else bytes);
          bytes = (if bm AND SB_NO2 hc \<noteq> 0 then bytes + sizeof_double else bytes);
          bytes = (if bm AND SB_HUMIDITY hc \<noteq> 0 then bytes + sizeof_double else bytes);
          bytes = (if bm AND SB_COUNTER hc \<noteq> 0 then bytes + cpb else bytes)
      in bytes)"

text \<open>
  \<open>sampleAndSendIfDue()\<close>; \<open>now\<close> is \<open>simTime()\<close>. The result is the list of effects
  of the call, in order, and the module after it.
\<close>

definition sampleAndSendIfDue ::
  "host_consts \<Rightarrow> params \<Rightarrow> simtime_t \<Rightarrow> wlam_sensor_app \<Rightarrow> effect list \<times> wlam_sensor_app" where
  "sampleAndSendIfDue hc p now w =
     (let st = scan_sensors hc now w;
          l = vars st
      in if bitmap l = SB_NONE hc then (out st, app st)
         else
           (let pl = \<lparr>getBitmap = bitmap l, getTemperature = temperature l, getNo2 = no2 l,
                      getHumidity = humidity l, getCounter = counterVal l,
                      getNodeId = fullPath p, getCreatedAt = now,
                      getChunkLength =
                        wire_bytes hc (basePayloadBytes (app st)) (par_counterPayloadBytes p)
                          (bitmap l)\<rparr>;
                pkt = attachLoRaTag (app st)
                        \<lparr>getName = ''sensorAggUplink'', payload = pl, loRaTag = None\<rparr>
            in (out st @ [Send pkt ''socketOut'', Emit sigPktSent (LongValue (bitmap l))],
                app st)))"

datatype message = SchedulerMsg | SocketInMsg | OtherMsg

definition handleMessage ::
  "host_consts \<Rightarrow> params \<Rightarrow> simtime_t \<Rightarrow> message \<Rightarrow> wlam_sensor_app
     \<Rightarrow> effect list \<times> wlam_sensor_app" where
  "handleMessage hc p now msg w =
     (case msg of
        SchedulerMsg \<Rightarrow>
          (case sampleAndSendIfDue hc p now w of (es, w1) \<Rightarrow> (es, scheduleNext w1))
      | SocketInMsg \<Rightarrow> ([], w)
      | OtherMsg \<Rightarrow> ([], w))"

definition finish :: "wlam_sensor_app \<Rightarrow> wlam_sensor_app" where
  "finish w = w\<lparr>scheduledAt := None\<rparr>"

section \<open>The host's event loop\<close>

text \<open>
  The host calls \<open>initialize\<close> once per stage, in increasing order; only stage 0 and
  the application-layer stage do anything. Afterwards it delivers the self-message at the
  time it was scheduled for (and does nothing when none is scheduled), and may deliver
  other messages in between.
\<close>

definition startup ::
  "host_consts \<Rightarrow> params \<Rightarrow> simtime_t \<Rightarrow> wlam_sensor_app \<Rightarrow> wlam_sensor_app" where
  "startup hc p now w =
     initialize hc p now (INITSTAGE_APPLICATION_LAYER hc) (initialize hc p now 0 w)"

datatype event = TimerFires | DownlinkArrives simtime_t | OtherArrives simtime_t

fun deliver ::
  "host_consts \<Rightarrow> params \<Rightarrow> event \<Rightarrow> wlam_sensor_app \<Rightarrow> effect list \<times> wlam_sensor_app" where
  "deliver hc p TimerFires w =
     (case scheduledAt w of
        None \<Rightarrow> ([], w)
      | Some t \<Rightarrow> handleMessage hc p t SchedulerMsg (w\<lparr>scheduledAt := None\<rparr>))"
| "deliver hc p (DownlinkArrives t) w = handleMessage hc p t SocketInMsg w"
| "deliver hc p (OtherArrives t) w = handleMessage hc p t OtherMsg w"

fun run ::
  "host_consts \<Rightarrow> params \<Rightarrow> event list \<Rightarrow> wlam_sensor_app \<Rightarrow> effect list \<times> wlam_sensor_app" where
  "run hc p [] w = ([], w)"
| "run hc p (e # evs) w =
     (case deliver hc p e w of
        (es, w1) \<Rightarrow> (case run hc p evs w1 of (es', w2) \<Rightarrow> (es @ es', w2)))"

text \<open>
  The object as its constructor leaves it (the default member initialisers of the
  header); the \<open>id\<close> members are not initialised and are the parameter \<open>ids\<close>.
\<close>

definition constructed ::
  "(nat \<Rightarrow> SensorID) \<Rightarrow> (nat \<Rightarrow> real) \<Rightarrow> (nat \<Rightarrow> real) \<Rightarrow> wlam_sensor_app" where
  "constructed ids us zs =
     \<lparr>scheduledAt = None,
      sensors = map (\<lambda>i. \<lparr>sensor_id = ids i, interval = 0, nextDue = SIMTIME_MAX,
                           lastValue = None, counter = 0, isCounter = False\<rparr>)
                  [0..<sid_value SID_COUNT],
      jitterFrac = 0, baseTemp = 0, ampTemp = 0, baseNO2 = 0, ampNO2 = 0,
      baseHum = 0, ampHum = 0, initTPdBm = 0, initCFHz = 0, initSF = 0, initBWHZ = 0,
      initCR = 0, basePayloadBytes = 0, loRaRadio = None, unif = us, gauss = zs\<rparr>"

section \<open>Auxiliary notions for the statements\<close>

text \<open>
  What initialisation establishes and every event keeps (lemmas \<open>startup_sensors_ok\<close>
  and \<open>run_sensors_ok\<close> below): four sensors, each carrying its own identifier.
\<close>

definition sensors_ok :: "wlam_sensor_app \<Rightarrow> bool" where
  "sensors_ok w =
     (map sensor_id (sensors w) = [SID_TEMPERATURE, SID_NO2, SID_HUMIDITY, SID_COUNTER])"

text \<open>The packets sent and the values emitted on one signal, in order.\<close>

fun sent_packets :: "effect list \<Rightarrow> Packet list" where
  "sent_packets [] = []"
| "sent_packets (Send pkt gate # es) = pkt # sent_packets es"
| "sent_packets (Emit sg v # es) = sent_packets es"

fun emitted :: "simsignal \<Rightarrow> effect list \<Rightarrow> sigvalue list" where
  "emitted sg [] = []"
| "emitted sg (Send pkt gate # es) = emitted sg es"
| "emitted sg (Emit sg' v # es) = (if sg' = sg then v # emitted sg es else emitted sg es)"

text \<open>The packets sent together with the gate each one was sent on, in order.\<close>

fun sends :: "effect list \<Rightarrow> (Packet \<times> string) list" where
  "sends [] = []"
| "sends (Send pkt gate # es) = (pkt, gate) # sends es"
| "sends (Emit sg v # es) = sends es"

text \<open>
  The bitmap the loop of \<open>sampleAndSendIfDue\<close> accumulates, written out: the bits of
  the quantities that are due at \<open>now\<close>, in the order of the loop.
\<close>

definition due_bitmap :: "host_consts \<Rightarrow> simtime_t \<Rightarrow> wlam_sensor_app \<Rightarrow> int" where
  "due_bitmap hc now w =
     (((SB_NONE hc
        OR (if nextDue (sensors w ! 0) \<le> now then SB_TEMPERATURE hc OR SB_HUMIDITY hc else 0))
        OR (if nextDue (sensors w ! 1) \<le> now then SB_NO2 hc else 0))
        OR (if nextDue (sensors w ! 2) \<le> now then SB_HUMIDITY hc else 0))
        OR (if nextDue (sensors w ! 3) \<le> now then SB_COUNTER hc else 0)"

text \<open>
  The spec's wire-size formula, read on unbounded integers: base, one bitmap byte, eight
  bytes of timestamp, eight bytes per present reading, and the counter's bytes.
\<close>

definition spec_wire_size :: "host_consts \<Rightarrow> int \<Rightarrow> int \<Rightarrow> int \<Rightarrow> int" where
  "spec_wire_size hc base cpb bm =
     base + 1 + 8
     + (if bm AND SB_TEMPERATURE hc \<noteq> 0 then 8 else 0)
     + (if bm AND SB_NO2 hc \<noteq> 0 then 8 else 0)
     + (if bm AND SB_HUMIDITY hc \<noteq> 0 then 8 else 0)
     + (if bm AND SB_COUNTER hc \<noteq> 0 then cpb else 0)"

text \<open>
  A quantity is disabled when its interval is not positive and its \<open>nextDue\<close> is the
  sentinel. The timer is in order when the self-message is not scheduled or is scheduled
  before the sentinel, which is what \<open>scheduleNext\<close> guarantees.
\<close>

definition disabled :: "wlam_sensor_app \<Rightarrow> nat \<Rightarrow> bool" where
  "disabled w i = (interval (sensors w ! i) \<le> 0 \<and> nextDue (sensors w ! i) = SIMTIME_MAX)"

definition timer_ok :: "wlam_sensor_app \<Rightarrow> bool" where
  "timer_ok w = (case scheduledAt w of None \<Rightarrow> True | Some t \<Rightarrow> t < SIMTIME_MAX)"




section \<open>Example data\<close>

text \<open>
  A concrete set of constants (the application-layer stage can be any non-zero number),
  module parameters, a radio, and a node whose four quantities are due at the four given
  times; the closed instances of the theorems are stated on them. Two more
  configurations have only the temperature, and only the counter, enabled.
\<close>

definition example_consts :: host_consts where
  "example_consts =
     \<lparr>SB_NONE = 0, SB_TEMPERATURE = 1, SB_NO2 = 2, SB_HUMIDITY = 4, SB_COUNTER = 8,
      INITSTAGE_APPLICATION_LAYER = 1\<rparr>"

definition example_params :: params where
  "example_params =
     \<lparr>par_temperatureInterval = 10, par_no2Interval = 20, par_humidityInterval = 30,
      par_counterInterval = 5, par_intervalJitterFraction = 1 / 10,
      par_baseTemperature = 20, par_amplitudeTemperature = 5,
      par_baseHumidity = 50, par_amplitudeHumidity = 10,
      par_baseNO2 = 30, par_amplitudeNO2 = 10,
      par_initialLoRaTP = 14, par_initialLoRaCF = 868000000, par_initialLoRaSF = 12,
      par_initialLoRaBW = 125000, par_initialLoRaCR = 4,
      par_basePayloadBytes = 10, par_counterPayloadBytes = 4,
      fullPath = ''net.node[0].app'', radioModule = None\<rparr>"

definition example_node ::
  "simtime_t \<Rightarrow> simtime_t \<Rightarrow> simtime_t \<Rightarrow> simtime_t \<Rightarrow> wlam_sensor_app" where
  "example_node dT dN dH dC =
     \<lparr>scheduledAt = None,
      sensors =
        [\<lparr>sensor_id = SID_TEMPERATURE, interval = 10, nextDue = dT, lastValue = None,
          counter = 0, isCounter = False\<rparr>,
         \<lparr>sensor_id = SID_NO2, interval = 20, nextDue = dN, lastValue = None,
          counter = 0, isCounter = False\<rparr>,
         \<lparr>sensor_id = SID_HUMIDITY, interval = 30, nextDue = dH, lastValue = None,
          counter = 0, isCounter = False\<rparr>,
         \<lparr>sensor_id = SID_COUNTER, interval = 5, nextDue = dC, lastValue = None,
          counter = 0, isCounter = True\<rparr>],
      jitterFrac = 1 / 10, baseTemp = 20, ampTemp = 5, baseNO2 = 30, ampNO2 = 10,
      baseHum = 50, ampHum = 10, initTPdBm = 14, initCFHz = 868000000, initSF = 12,
      initBWHZ = 125000, initCR = 4, basePayloadBytes = 10, loRaRadio = None,
      unif = (\<lambda>n. 1 / 2), gauss = (\<lambda>n. 0)\<rparr>"

definition example_radio :: LoRaRadio where
  "example_radio = \<lparr>loRaTP = 2, loRaCF = 867100000, loRaSF = 7, loRaBW = 250000, loRaCR = 1\<rparr>"

definition example_params_T_only :: params where
  "example_params_T_only =
     example_params\<lparr>par_no2Interval := 0, par_humidityInterval := 0, par_counterInterval := 0\<rparr>"

definition example_params_C_only :: params where
  "example_params_C_only =
     example_params\<lparr>par_temperatureInterval := 0, par_no2Interval := 0,
                     par_humidityInterval := 0\<rparr>"

section \<open>Lemmas about one iteration and about the loop\<close>

lemma upt_4: "[0..<4] = [0::nat, 1, 2, 3]"
proof -
  have "[0..<4] = [0..<Suc (Suc (Suc (Suc 0)))]" by (simp add: numeral_eq_Suc)
  also have "\<dots> = [0, 1, 2, 3]" by (simp add: numeral_eq_Suc)
  finally show ?thesis by simp
qed

lemma sensors_ok_length: "sensors_ok w \<Longrightarrow> length (sensors w) = 4"
proof -
  assume "sensors_ok w"
  then have "length (map sensor_id (sensors w)) = length [SID_TEMPERATURE, SID_NO2, SID_HUMIDITY, SID_COUNTER]"
    by (simp only: sensors_ok_def)
  then show ?thesis by simp
qed

lemma sensors_ok_ids:
  assumes "sensors_ok w"
  shows "sensor_id (sensors w ! 0) = SID_TEMPERATURE"
    and "sensor_id (sensors w ! 1) = SID_NO2"
    and "sensor_id (sensors w ! Suc 0) = SID_NO2"
    and "sensor_id (sensors w ! 2) = SID_HUMIDITY"
    and "sensor_id (sensors w ! 3) = SID_COUNTER"
proof -
  have len: "length (sensors w) = 4" using assms by (rule sensors_ok_length)
  have m: "map sensor_id (sensors w) = [SID_TEMPERATURE, SID_NO2, SID_HUMIDITY, SID_COUNTER]"
    using assms by (simp add: sensors_ok_def)
  have n: "\<And>i. i < 4 \<Longrightarrow> sensor_id (sensors w ! i) = [SID_TEMPERATURE, SID_NO2, SID_HUMIDITY, SID_COUNTER] ! i"
    using len m by (metis nth_map)
  show "sensor_id (sensors w ! 0) = SID_TEMPERATURE" using n[of 0] by simp
  show "sensor_id (sensors w ! 1) = SID_NO2" using n[of 1] by simp
  then show "sensor_id (sensors w ! Suc 0) = SID_NO2" by simp
  show "sensor_id (sensors w ! 2) = SID_HUMIDITY" using n[of 2] by simp
  show "sensor_id (sensors w ! 3) = SID_COUNTER" using n[of 3] by simp
qed

lemma map_update_same:
  "i < length xs \<Longrightarrow> f y = f (xs ! i) \<Longrightarrow> map f (xs[i := y]) = map f xs"
  by (simp add: map_update list_update_same_conv)

lemma genTemperature_eq:
  "genTemperature now w =
     (baseTemp w + ampTemp w * sin (2 * pi * (now / 3600 / 24)) + normal (gauss w 0) 0 0.2,
      w\<lparr>gauss := \<lambda>n. gauss w (Suc n)\<rparr>)"
  by (simp only: genTemperature_def draw_gauss_def Let_def prod.case)

lemma genHumidity_eq:
  "genHumidity now w =
     (baseHum w + ampHum w * sin (2 * pi * (now / 3600 / 24) + pi / 4) + normal (gauss w 0) 0 0.5,
      w\<lparr>gauss := \<lambda>n. gauss w (Suc n)\<rparr>)"
  by (simp only: genHumidity_def draw_gauss_def Let_def prod.case)

lemma genNO2_eq:
  "genNO2 now w =
     (baseNO2 w + ampNO2 w * (0.5 + 0.5 * sin (2 * pi * (now / 3600 / 12))) + normal (gauss w 0) 0 0.1,
      w\<lparr>gauss := \<lambda>n. gauss w (Suc n)\<rparr>)"
  by (simp only: genNO2_def draw_gauss_def Let_def prod.case)

lemmas step_defs = visit_def sample_def reschedule_def genTemperature_eq genHumidity_eq genNO2_eq
  set_sensor_def draw_unif_def Let_def

lemma visit_not_due: "\<not> nextDue (sensors (app st) ! i) \<le> now \<Longrightarrow> visit hc now i st = st"
  by (simp add: visit_def)

lemma visit_frame:
  "scheduledAt (app (visit hc now i st)) = scheduledAt (app st)"
  "jitterFrac (app (visit hc now i st)) = jitterFrac (app st)"
  "baseTemp (app (visit hc now i st)) = baseTemp (app st)"
  "ampTemp (app (visit hc now i st)) = ampTemp (app st)"
  "baseNO2 (app (visit hc now i st)) = baseNO2 (app st)"
  "ampNO2 (app (visit hc now i st)) = ampNO2 (app st)"
  "baseHum (app (visit hc now i st)) = baseHum (app st)"
  "ampHum (app (visit hc now i st)) = ampHum (app st)"
  "basePayloadBytes (app (visit hc now i st)) = basePayloadBytes (app st)"
  "loRaRadio (app (visit hc now i st)) = loRaRadio (app st)"
  by (simp_all add: step_defs split: SensorID.splits)

lemma visit_sensors:
  assumes "i < length (sensors (app st))"
  shows "length (sensors (app (visit hc now i st))) = length (sensors (app st))"
    and "j \<noteq> i \<Longrightarrow> sensors (app (visit hc now i st)) ! j = sensors (app st) ! j"
    and "map sensor_id (sensors (app (visit hc now i st))) = map sensor_id (sensors (app st))"
    and "map interval (sensors (app (visit hc now i st))) = map interval (sensors (app st))"
  using assms
  by (simp_all add: step_defs map_update_same split: SensorID.splits)

lemma visit_sensors_ok:
  "sensors_ok (app st) \<Longrightarrow> i < 4 \<Longrightarrow> sensors_ok (app (visit hc now i st))"
  using visit_sensors(3)[of i st hc now] sensors_ok_length[of "app st"]
  by (simp add: sensors_ok_def)

lemma visit_interval:
  assumes "i < length (sensors (app st))"
  shows "interval (sensors (app (visit hc now i st)) ! j) = interval (sensors (app st) ! j)"
proof (cases "j = i")
  case False then show ?thesis using assms by (simp add: visit_sensors(2))
next
  case True
  have "map interval (sensors (app (visit hc now i st))) ! i = map interval (sensors (app st)) ! i"
    using assms by (simp add: visit_sensors(4))
  then show ?thesis using assms True by (simp add: visit_sensors(1))
qed


lemma visit_nextDue:
  assumes "i < length (sensors (app st))" and "nextDue (sensors (app st) ! i) \<le> now"
  shows "nextDue (sensors (app (visit hc now i st)) ! i) =
     (if 0 < interval (sensors (app st) ! i)
      then now + interval (sensors (app st) ! i) +
           uniform (unif (app st) 0) (- (interval (sensors (app st) ! i) * jitterFrac (app st)))
             (interval (sensors (app st) ! i) * jitterFrac (app st))
      else SIMTIME_MAX)"
  using assms
  by (simp add: step_defs split: SensorID.splits)

lemma sensors_ok_nth_other:
  "sensors_ok (app st) \<Longrightarrow> i < 4 \<Longrightarrow> j \<noteq> i \<Longrightarrow>
     sensors (app (visit hc now i st)) ! j = sensors (app st) ! j"
  by (simp add: visit_sensors(2) sensors_ok_length)

lemma visit_out:
  assumes "sensors_ok (app st)"
  shows "out (visit hc now 0 st) =
           (if nextDue (sensors (app st) ! 0) \<le> now
            then out st @ [Emit sigTemp (DoubleValue (fst (genTemperature now (app st)))),
                           Emit sigHum (DoubleValue
                             (fst (genHumidity now (snd (genTemperature now (app st))))))]
            else out st)"
    and "out (visit hc now (Suc 0) st) =
           (if nextDue (sensors (app st) ! Suc 0) \<le> now
            then out st @ [Emit sigNO2 (DoubleValue (fst (genNO2 now (app st))))]
            else out st)"
    and "out (visit hc now 2 st) =
           (if nextDue (sensors (app st) ! 2) \<le> now
            then out st @ [Emit sigHum (DoubleValue (fst (genHumidity now (app st))))]
            else out st)"
    and "out (visit hc now 3 st) =
           (if nextDue (sensors (app st) ! 3) \<le> now
            then out st @ [Emit sigCounter (LongValue (sint (counter (sensors (app st) ! 3) + 1)))]
            else out st)"
  using sensors_ok_ids[OF assms] sensors_ok_length[OF assms]
  by (simp_all add: step_defs)

lemma visit_vars:
  assumes "sensors_ok (app st)"
  shows "vars (visit hc now 0 st) =
           (if nextDue (sensors (app st) ! 0) \<le> now
            then (vars st)\<lparr>temperature := Some (fst (genTemperature now (app st))),
                   humidity := Some (fst (genHumidity now (snd (genTemperature now (app st))))),
                   bitmap := (bitmap (vars st) OR SB_TEMPERATURE hc) OR SB_HUMIDITY hc\<rparr>
            else vars st)"
    and "vars (visit hc now (Suc 0) st) =
           (if nextDue (sensors (app st) ! Suc 0) \<le> now
            then (vars st)\<lparr>no2 := Some (fst (genNO2 now (app st))),
                   bitmap := bitmap (vars st) OR SB_NO2 hc\<rparr>
            else vars st)"
    and "vars (visit hc now 2 st) =
           (if nextDue (sensors (app st) ! 2) \<le> now
            then (vars st)\<lparr>humidity := Some (fst (genHumidity now (app st))),
                   bitmap := bitmap (vars st) OR SB_HUMIDITY hc\<rparr>
            else vars st)"
    and "vars (visit hc now 3 st) =
           (if nextDue (sensors (app st) ! 3) \<le> now
            then (vars st)\<lparr>counterVal := counter (sensors (app st) ! 3) + 1,
                   bitmap := bitmap (vars st) OR SB_COUNTER hc\<rparr>
            else vars st)"
  using sensors_ok_ids[OF assms] sensors_ok_length[OF assms]
  by (simp_all add: step_defs)

lemma visit_gauss:
  assumes "sensors_ok (app st)"
  shows "gauss (app (visit hc now 0 st)) =
           (if nextDue (sensors (app st) ! 0) \<le> now
            then (\<lambda>n. gauss (app st) (Suc (Suc n))) else gauss (app st))"
    and "gauss (app (visit hc now (Suc 0) st)) =
           (if nextDue (sensors (app st) ! Suc 0) \<le> now
            then (\<lambda>n. gauss (app st) (Suc n)) else gauss (app st))"
    and "gauss (app (visit hc now 2 st)) =
           (if nextDue (sensors (app st) ! 2) \<le> now
            then (\<lambda>n. gauss (app st) (Suc n)) else gauss (app st))"
    and "gauss (app (visit hc now 3 st)) = gauss (app st)"
  using sensors_ok_ids[OF assms] sensors_ok_length[OF assms]
  by (simp_all add: step_defs)

lemma visit_counter:
  assumes "sensors_ok (app st)"
  shows "counter (sensors (app (visit hc now 3 st)) ! 3) =
           (if nextDue (sensors (app st) ! 3) \<le> now
            then counter (sensors (app st) ! 3) + 1 else counter (sensors (app st) ! 3))"
  using sensors_ok_ids[OF assms] sensors_ok_length[OF assms]
  by (simp add: step_defs)

lemma scan_unfold:
  "scan_sensors hc now w =
     visit hc now 3 (visit hc now 2 (visit hc now 1 (visit hc now 0
       \<lparr>out = [], vars = init_locals hc, app = w\<rparr>)))"
  by (simp add: scan_sensors_def upt_4)

lemma scan_bitmap:
  assumes "sensors_ok w"
  shows "bitmap (vars (scan_sensors hc now w)) =
     (((SB_NONE hc
        OR (if nextDue (sensors w ! 0) \<le> now then SB_TEMPERATURE hc OR SB_HUMIDITY hc else 0))
        OR (if nextDue (sensors w ! 1) \<le> now then SB_NO2 hc else 0))
        OR (if nextDue (sensors w ! 2) \<le> now then SB_HUMIDITY hc else 0))
        OR (if nextDue (sensors w ! 3) \<le> now then SB_COUNTER hc else 0)"
  using assms
  by (simp add: scan_unfold visit_vars visit_sensors_ok sensors_ok_nth_other init_locals_def or.assoc)

subsection \<open>Effects of the loop and of the whole call\<close>

lemma sent_packets_append: "sent_packets (xs @ ys) = sent_packets xs @ sent_packets ys"
proof (induction xs)
  case Nil
  show ?case by simp
next
  case (Cons e xs)
  then show ?case by (cases e) simp_all
qed

lemma emitted_append: "emitted sg (xs @ ys) = emitted sg xs @ emitted sg ys"
proof (induction xs)
  case Nil
  show ?case by simp
next
  case (Cons e xs)
  then show ?case by (cases e) simp_all
qed

lemma visit_sent: "sent_packets (out (visit hc now i st)) = sent_packets (out st)"
  by (simp add: step_defs sent_packets_append split: SensorID.splits)

lemma scan_sent: "sent_packets (out (scan_sensors hc now w)) = []"
  by (simp add: scan_unfold visit_sent)

lemma scan_frame:
  "scheduledAt (app (scan_sensors hc now w)) = scheduledAt w"
  "jitterFrac (app (scan_sensors hc now w)) = jitterFrac w"
  "baseHum (app (scan_sensors hc now w)) = baseHum w"
  "ampHum (app (scan_sensors hc now w)) = ampHum w"
  "basePayloadBytes (app (scan_sensors hc now w)) = basePayloadBytes w"
  "loRaRadio (app (scan_sensors hc now w)) = loRaRadio w"
  by (simp_all add: scan_unfold visit_frame)

lemma scan_sensors_ok: "sensors_ok w \<Longrightarrow> sensors_ok (app (scan_sensors hc now w))"
  by (simp add: scan_unfold visit_sensors_ok)

lemma scan_due_bitmap:
  "sensors_ok w \<Longrightarrow> bitmap (vars (scan_sensors hc now w)) = due_bitmap hc now w"
  by (simp only: scan_bitmap due_bitmap_def)

subsection \<open>The algebra of the presence bits\<close>

lemma presence_bits_disjoint:
  assumes "presence_bits hc"
  shows "SB_NONE hc = 0"
    and "SB_TEMPERATURE hc \<noteq> 0" and "SB_NO2 hc \<noteq> 0"
    and "SB_HUMIDITY hc \<noteq> 0" and "SB_COUNTER hc \<noteq> 0"
    and "SB_TEMPERATURE hc AND SB_NO2 hc = 0" and "SB_NO2 hc AND SB_TEMPERATURE hc = 0"
    and "SB_TEMPERATURE hc AND SB_HUMIDITY hc = 0" and "SB_HUMIDITY hc AND SB_TEMPERATURE hc = 0"
    and "SB_TEMPERATURE hc AND SB_COUNTER hc = 0" and "SB_COUNTER hc AND SB_TEMPERATURE hc = 0"
    and "SB_NO2 hc AND SB_HUMIDITY hc = 0" and "SB_HUMIDITY hc AND SB_NO2 hc = 0"
    and "SB_NO2 hc AND SB_COUNTER hc = 0" and "SB_COUNTER hc AND SB_NO2 hc = 0"
    and "SB_HUMIDITY hc AND SB_COUNTER hc = 0" and "SB_COUNTER hc AND SB_HUMIDITY hc = 0"
  using assms by (simp_all add: presence_bits_def and.commute)

lemma due_bitmap_bits:
  assumes "presence_bits hc"
  shows "(due_bitmap hc now w AND SB_TEMPERATURE hc \<noteq> 0) = (nextDue (sensors w ! 0) \<le> now)"
    and "(due_bitmap hc now w AND SB_NO2 hc \<noteq> 0) = (nextDue (sensors w ! 1) \<le> now)"
    and "(due_bitmap hc now w AND SB_HUMIDITY hc \<noteq> 0) =
           (nextDue (sensors w ! 0) \<le> now \<or> nextDue (sensors w ! 2) \<le> now)"
    and "(due_bitmap hc now w AND SB_COUNTER hc \<noteq> 0) = (nextDue (sensors w ! 3) \<le> now)"
    and "(due_bitmap hc now w = SB_NONE hc) =
           (\<not> nextDue (sensors w ! 0) \<le> now \<and> \<not> nextDue (sensors w ! 1) \<le> now \<and>
            \<not> nextDue (sensors w ! 2) \<le> now \<and> \<not> nextDue (sensors w ! 3) \<le> now)"
  using presence_bits_disjoint[OF assms]
  by (simp_all add: due_bitmap_def bit.conj_disj_distrib2 or_eq_0_iff)

lemma attachLoRaTag_cong: "loRaRadio w' = loRaRadio w \<Longrightarrow> attachLoRaTag w' = attachLoRaTag w"
  by (rule ext) (simp add: attachLoRaTag_def)

lemma sampleAndSendIfDue_snd:
  "snd (sampleAndSendIfDue hc p now w) = app (scan_sensors hc now w)"
  by (simp add: sampleAndSendIfDue_def Let_def)

lemma sampleAndSendIfDue_sent:
  "sent_packets (fst (sampleAndSendIfDue hc p now w)) =
     (let l = vars (scan_sensors hc now w) in
      if bitmap l = SB_NONE hc then []
      else [attachLoRaTag w
              \<lparr>getName = ''sensorAggUplink'',
               payload = \<lparr>getBitmap = bitmap l, getTemperature = temperature l, getNo2 = no2 l,
                          getHumidity = humidity l, getCounter = counterVal l,
                          getNodeId = fullPath p, getCreatedAt = now,
                          getChunkLength =
                            wire_bytes hc (basePayloadBytes w) (par_counterPayloadBytes p)
                              (bitmap l)\<rparr>,
               loRaTag = None\<rparr>])"
  by (simp add: sampleAndSendIfDue_def Let_def sent_packets_append scan_sent scan_frame
        attachLoRaTag_cong[OF scan_frame(6)])

lemma sampleAndSendIfDue_emitted:
  "emitted sg (fst (sampleAndSendIfDue hc p now w)) =
     emitted sg (out (scan_sensors hc now w)) @
     (if bitmap (vars (scan_sensors hc now w)) = SB_NONE hc \<or> sg \<noteq> sigPktSent then []
      else [LongValue (bitmap (vars (scan_sensors hc now w)))])"
  by (simp add: sampleAndSendIfDue_def Let_def emitted_append)

lemma example_node_simps:
  "sensors_ok (example_node dT dN dH dC)"
  "nextDue (sensors (example_node dT dN dH dC) ! 0) = dT"
  "nextDue (sensors (example_node dT dN dH dC) ! Suc 0) = dN"
  "nextDue (sensors (example_node dT dN dH dC) ! 2) = dH"
  "nextDue (sensors (example_node dT dN dH dC) ! 3) = dC"
  by (simp_all add: example_node_def sensors_ok_def)

lemma example_consts_presence: "presence_bits example_consts"
  by (simp add: presence_bits_def example_consts_def)

lemma scheduleNext_frame:
  "sensors (scheduleNext w) = sensors w"
  "loRaRadio (scheduleNext w) = loRaRadio w"
  "unif (scheduleNext w) = unif w"
  "gauss (scheduleNext w) = gauss w"
  "jitterFrac (scheduleNext w) = jitterFrac w"
  by (simp_all add: scheduleNext_def Let_def)

subsection \<open>The size accounting\<close>

lemma wire_bytes_eq:
  "wire_bytes hc base cpb bm =
     scast (base + 1) + 8
     + (if bm AND SB_TEMPERATURE hc \<noteq> 0 then 8 else 0)
     + (if bm AND SB_NO2 hc \<noteq> 0 then 8 else 0)
     + (if bm AND SB_HUMIDITY hc \<noteq> 0 then 8 else 0)
     + (if bm AND SB_COUNTER hc \<noteq> 0 then cpb else 0)"
  by (simp add: wire_bytes_def Let_def sizeof_simtime_t_def sizeof_double_def)

lemma sint_succ_32:
  fixes base :: "32 word"
  assumes "sint base < 2147483647"
  shows "sint (base + 1) = sint base + 1"
proof -
  have lo: "- (2 ^ 31) \<le> sint base" using sint_ge[of base] by simp
  have "sint (base + 1) = signed_take_bit 31 (sint base + 1)"
    by (simp add: sint_word_ariths)
  also have "\<dots> = sint base + 1"
    using lo assms by (intro signed_take_bit_int_eq_self) simp_all
  finally show ?thesis .
qed

lemma word_sum_of_int:
  "(word_of_int a :: 64 word) + 8 + (if t then 8 else 0) + (if n then 8 else 0)
     + (if h then 8 else 0) + (if c then word_of_int k else 0) =
   word_of_int (a + 8 + (if t then 8 else 0) + (if n then 8 else 0)
     + (if h then 8 else 0) + (if c then k else 0))"
  by simp

lemma wire_bytes_of_int:
  fixes base :: "32 word"
  assumes "sint base < 2147483647"
  shows "wire_bytes hc base cpb bm =
     word_of_int (sint base + 1 + 8
       + (if bm AND SB_TEMPERATURE hc \<noteq> 0 then 8 else 0)
       + (if bm AND SB_NO2 hc \<noteq> 0 then 8 else 0)
       + (if bm AND SB_HUMIDITY hc \<noteq> 0 then 8 else 0)
       + (if bm AND SB_COUNTER hc \<noteq> 0 then sint cpb else 0))"
proof -
  have "(scast (base + 1) :: 64 word) = word_of_int (sint (base + 1))"
    by (simp only: of_int_sint)
  also have "\<dots> = word_of_int (sint base + 1)"
    by (simp only: sint_succ_32[OF assms])
  finally have sc: "(scast (base + 1) :: 64 word) = word_of_int (sint base + 1)" .
  have cp: "(if bm AND SB_COUNTER hc \<noteq> 0 then cpb else 0) =
            (if bm AND SB_COUNTER hc \<noteq> 0 then word_of_int (sint cpb) else 0)"
    by simp
  show ?thesis
    unfolding wire_bytes_eq sc cp by (rule word_sum_of_int)
qed

lemma wire_bytes_sint:
  fixes base :: "32 word"
  assumes "sint base < 2147483647"
    and "- (2 ^ 63) \<le> S" and "S < 2 ^ 63"
    and "S = sint base + 1 + 8
       + (if bm AND SB_TEMPERATURE hc \<noteq> 0 then 8 else 0)
       + (if bm AND SB_NO2 hc \<noteq> 0 then 8 else 0)
       + (if bm AND SB_HUMIDITY hc \<noteq> 0 then 8 else 0)
       + (if bm AND SB_COUNTER hc \<noteq> 0 then sint cpb else 0)"
  shows "sint (wire_bytes hc base cpb bm) = S"
proof -
  have "wire_bytes hc base cpb bm = word_of_int S"
    unfolding assms(4) by (rule wire_bytes_of_int[OF assms(1)])
  then have "sint (wire_bytes hc base cpb bm) = signed_take_bit 63 S"
    by (simp add: sint_sbintrunc')
  also have "\<dots> = S"
    using assms(2,3) by (intro signed_take_bit_int_eq_self) simp_all
  finally show ?thesis .
qed

lemma wire_bytes_examples:
  assumes "presence_bits hc"
  shows "wire_bytes hc 10 cpb (SB_NO2 hc) = 27"
    and "wire_bytes hc 10 cpb (SB_NO2 hc OR SB_HUMIDITY hc) = 35"
    and "wire_bytes hc 10 4 (SB_COUNTER hc) = 23"
  using presence_bits_disjoint[OF assms]
  by (simp_all add: wire_bytes_eq bit.conj_disj_distrib2)

lemma sent_packet_fields:
  assumes "pkt \<in> set (sent_packets (fst (sampleAndSendIfDue hc p now w)))"
  shows "getBitmap (payload pkt) = bitmap (vars (scan_sensors hc now w))"
    and "bitmap (vars (scan_sensors hc now w)) \<noteq> SB_NONE hc"
    and "getChunkLength (payload pkt) =
           wire_bytes hc (basePayloadBytes w) (par_counterPayloadBytes p)
             (getBitmap (payload pkt))"
    and "getHumidity (payload pkt) = humidity (vars (scan_sensors hc now w))"
    and "getCounter (payload pkt) = counterVal (vars (scan_sensors hc now w))"
    and "loRaRadio w = None \<Longrightarrow> loRaTag pkt = None"
  using assms
  by (simp_all add: sampleAndSendIfDue_sent Let_def attachLoRaTag_def
        split: if_splits option.splits)

lemma sampleAndSendIfDue_one_packet:
  assumes "sensors_ok w" and "due_bitmap hc now w \<noteq> SB_NONE hc"
  shows "\<exists>pkt. sent_packets (fst (sampleAndSendIfDue hc p now w)) = [pkt]"
  using assms(2)
  by (simp add: sampleAndSendIfDue_sent Let_def scan_due_bitmap[OF assms(1)])

lemma example_due_bitmap_no2:
  "due_bitmap example_consts 100 (example_node 200 100 300 400) = 2"
  by (simp add: due_bitmap_def example_node_simps example_consts_def)

subsection \<open>Readings and counter values of one call\<close>

lemmas scan_simps = scan_unfold visit_out visit_vars visit_gauss visit_frame visit_sensors_ok
  sensors_ok_nth_other emitted_append init_locals_def

lemma scan_emitted_counter:
  assumes "sensors_ok w"
  shows "emitted sigCounter (out (scan_sensors hc now w)) =
           (if nextDue (sensors w ! 3) \<le> now
            then [LongValue (sint (counter (sensors w ! 3) + 1))] else [])"
    and "counterVal (vars (scan_sensors hc now w)) =
           (if nextDue (sensors w ! 3) \<le> now then counter (sensors w ! 3) + 1 else 0)"
    and "counter (sensors (app (scan_sensors hc now w)) ! 3) =
           (if nextDue (sensors w ! 3) \<le> now
            then counter (sensors w ! 3) + 1 else counter (sensors w ! 3))"
  using assms
  by (simp_all add: scan_simps visit_counter)

lemma scan_emitted_humidity_Suc:
  assumes "sensors_ok w"
    and "nextDue (sensors w ! 0) \<le> now" and "nextDue (sensors w ! 2) \<le> now"
  shows "emitted sigHum (out (scan_sensors hc now w)) =
           [DoubleValue (baseHum w + ampHum w * sin (2 * pi * (now / 3600 / 24) + pi / 4)
                         + normal (gauss w (Suc 0)) 0 0.5),
            DoubleValue (baseHum w + ampHum w * sin (2 * pi * (now / 3600 / 24) + pi / 4)
                         + normal (gauss w (if nextDue (sensors w ! 1) \<le> now
                                            then Suc (Suc (Suc 0)) else Suc (Suc 0))) 0 0.5)]"
    and "humidity (vars (scan_sensors hc now w)) =
           Some (baseHum w + ampHum w * sin (2 * pi * (now / 3600 / 24) + pi / 4)
                 + normal (gauss w (if nextDue (sensors w ! 1) \<le> now
                                    then Suc (Suc (Suc 0)) else Suc (Suc 0))) 0 0.5)"
  using assms
  by (simp_all add: scan_simps genHumidity_eq genTemperature_eq genNO2_eq)

lemma scan_emitted_humidity:
  assumes "sensors_ok w"
    and "nextDue (sensors w ! 0) \<le> now" and "nextDue (sensors w ! 2) \<le> now"
  shows "emitted sigHum (out (scan_sensors hc now w)) =
           [DoubleValue (baseHum w + ampHum w * sin (2 * pi * (now / 3600 / 24) + pi / 4)
                         + normal (gauss w 1) 0 0.5),
            DoubleValue (baseHum w + ampHum w * sin (2 * pi * (now / 3600 / 24) + pi / 4)
                         + normal (gauss w (if nextDue (sensors w ! 1) \<le> now then 3 else 2)) 0 0.5)]"
    and "humidity (vars (scan_sensors hc now w)) =
           Some (baseHum w + ampHum w * sin (2 * pi * (now / 3600 / 24) + pi / 4)
                 + normal (gauss w (if nextDue (sensors w ! 1) \<le> now then 3 else 2)) 0 0.5)"
  using scan_emitted_humidity_Suc[OF assms, of hc]
  by (simp_all add: numeral_2_eq_2 numeral_3_eq_3)

subsection \<open>The event loop\<close>

lemma sensors_ok_frame:
  "sensors_ok (w\<lparr>scheduledAt := x\<rparr>) = sensors_ok w"
  "sensors_ok (scheduleNext w) = sensors_ok w"
  "sensors_ok (applyInitialLoRaParams w) = sensors_ok w"
  by (simp_all add: sensors_ok_def scheduleNext_def applyInitialLoRaParams_def Let_def
        split: option.split)

lemma handleMessage_scheduler:
  "handleMessage hc p t SchedulerMsg w =
     (fst (sampleAndSendIfDue hc p t w), scheduleNext (snd (sampleAndSendIfDue hc p t w)))"
  by (simp add: handleMessage_def split: prod.split)

lemma deliver_cases:
  "deliver hc p e w = ([], w) \<or>
   (\<exists>t. scheduledAt w = Some t \<and>
        deliver hc p e w = handleMessage hc p t SchedulerMsg (w\<lparr>scheduledAt := None\<rparr>))"
  by (cases e) (simp_all add: handleMessage_def split: option.split)

lemma run_Cons:
  "snd (run hc p (e # evs) w) = snd (run hc p evs (snd (deliver hc p e w)))"
  "fst (run hc p (e # evs) w) =
     fst (deliver hc p e w) @ fst (run hc p evs (snd (deliver hc p e w)))"
  by (simp_all split: prod.split)

lemma run_invariant:
  assumes "I w"
    and "\<And>w t. I w \<Longrightarrow> scheduledAt w = Some t \<Longrightarrow>
           I (snd (handleMessage hc p t SchedulerMsg (w\<lparr>scheduledAt := None\<rparr>)))"
  shows "I (snd (run hc p evs w))"
  using assms(1)
proof (induction evs arbitrary: w)
  case Nil
  then show ?case by simp
next
  case (Cons e evs)
  have "I (snd (deliver hc p e w))"
    using deliver_cases[of hc p e w] Cons.prems assms(2)[of w] by auto
  then have "I (snd (run hc p evs (snd (deliver hc p e w))))"
    by (rule Cons.IH)
  then show ?case by (simp only: run_Cons)
qed

lemma run_packets:
  assumes "I w"
    and "\<And>w t. I w \<Longrightarrow> scheduledAt w = Some t \<Longrightarrow>
           I (snd (handleMessage hc p t SchedulerMsg (w\<lparr>scheduledAt := None\<rparr>)))"
    and "\<And>w t pkt. I w \<Longrightarrow> scheduledAt w = Some t \<Longrightarrow>
           pkt \<in> set (sent_packets
                        (fst (handleMessage hc p t SchedulerMsg (w\<lparr>scheduledAt := None\<rparr>)))) \<Longrightarrow>
           Q pkt"
  shows "\<forall>pkt \<in> set (sent_packets (fst (run hc p evs w))). Q pkt"
  using assms(1)
proof (induction evs arbitrary: w)
  case Nil
  then show ?case by simp
next
  case (Cons e evs)
  have inv: "I (snd (deliver hc p e w))"
    using deliver_cases[of hc p e w] Cons.prems assms(2)[of w] by auto
  have here: "\<forall>pkt \<in> set (sent_packets (fst (deliver hc p e w))). Q pkt"
    using deliver_cases[of hc p e w] Cons.prems assms(3)[of w] by auto
  have rest: "\<forall>pkt \<in> set (sent_packets (fst (run hc p evs (snd (deliver hc p e w))))). Q pkt"
    using inv by (rule Cons.IH)
  show ?case
    using here rest by (auto simp only: run_Cons sent_packets_append set_append)
qed

subsection \<open>Initialisation\<close>

lemma length_4_conv: "length xs = 4 \<Longrightarrow> \<exists>a b c d. xs = [a, b, c, d]"
  by (auto simp: numeral_eq_Suc length_Suc_conv)

lemma constructed_sensors: "length (sensors (constructed ids us zs)) = 4"
  by (simp add: constructed_def)

lemma constructed_fields:
  "scheduledAt (constructed ids us zs) = None"
  "loRaRadio (constructed ids us zs) = None"
  by (simp_all add: constructed_def)

lemma initSensor_frame:
  "scheduledAt (initSensor now sid ival c w) = scheduledAt w"
  "loRaRadio (initSensor now sid ival c w) = loRaRadio w"
  "jitterFrac (initSensor now sid ival c w) = jitterFrac w"
  "initTPdBm (initSensor now sid ival c w) = initTPdBm w"
  "initCFHz (initSensor now sid ival c w) = initCFHz w"
  "initSF (initSensor now sid ival c w) = initSF w"
  "initBWHZ (initSensor now sid ival c w) = initBWHZ w"
  "initCR (initSensor now sid ival c w) = initCR w"
  "length (sensors (initSensor now sid ival c w)) = length (sensors w)"
  by (simp_all add: initSensor_def set_sensor_def draw_unif_def Let_def)

lemma initialize0_frame:
  "scheduledAt (initialize hc p now 0 w) = scheduledAt w"
  "loRaRadio (initialize hc p now 0 w) =
     (case radioModule p of None \<Rightarrow> loRaRadio w | Some r \<Rightarrow> Some r)"
  "jitterFrac (initialize hc p now 0 w) = par_intervalJitterFraction p"
  "initTPdBm (initialize hc p now 0 w) = par_initialLoRaTP p"
  "initCFHz (initialize hc p now 0 w) = par_initialLoRaCF p"
  "initSF (initialize hc p now 0 w) = par_initialLoRaSF p"
  "initBWHZ (initialize hc p now 0 w) = par_initialLoRaBW p"
  "initCR (initialize hc p now 0 w) = par_initialLoRaCR p"
  "length (sensors (initialize hc p now 0 w)) = length (sensors w)"
  by (simp_all add: initialize_def Let_def initSensor_frame)

lemma startup_cases:
  "startup hc p now w =
     (if INITSTAGE_APPLICATION_LAYER hc = 0
      then initialize hc p now 0 (initialize hc p now 0 w)
      else scheduleNext (applyInitialLoRaParams (initialize hc p now 0 w)))"
  by (simp add: startup_def initialize_def)

lemma applyInitialLoRaParams_radio:
  "loRaRadio (applyInitialLoRaParams w) =
     map_option (\<lambda>r. r\<lparr>loRaTP := initTPdBm w, loRaCF := initCFHz w, loRaSF := initSF w,
                         loRaBW := initBWHZ w, loRaCR := initCR w\<rparr>) (loRaRadio w)"
  by (simp add: applyInitialLoRaParams_def split: option.split)

lemma handleMessage_radio:
  "loRaRadio (snd (handleMessage hc p t m w)) = loRaRadio w"
  by (cases m)
     (simp_all add: handleMessage_scheduler sampleAndSendIfDue_snd scheduleNext_frame scan_frame,
      simp_all add: handleMessage_def)

lemma run_radio: "loRaRadio (snd (run hc p evs w)) = loRaRadio w"
proof -
  have "(\<lambda>v. loRaRadio v = loRaRadio w) (snd (run hc p evs w))"
    by (rule run_invariant) (simp_all add: handleMessage_radio)
  then show ?thesis .
qed

lemma startup_no_radio:
  assumes "radioModule p = None"
  shows "loRaRadio (startup hc p t0 (constructed ids us zs)) = None"
  using assms
  by (simp add: startup_cases initialize0_frame constructed_fields scheduleNext_frame
        applyInitialLoRaParams_radio)

lemma example_startup:
  "startup example_consts example_params 0 (constructed ids (\<lambda>n. 1 / 2) (\<lambda>n. 0)) =
     (example_node 10 20 30 5)\<lparr>scheduledAt := Some 5\<rparr>"
  by (simp add: startup_def initialize_def example_consts_def example_params_def
        constructed_def upt_4 initSensor_def set_sensor_def draw_unif_def uniform_def
        applyInitialLoRaParams_def scheduleNext_def earliestNextDue_def SIMTIME_MAX_def
        example_node_def Let_def)

lemma scan_nth_not_due:
  assumes "sensors_ok w" and "\<not> nextDue (sensors w ! i) \<le> now" and "i < 4"
  shows "sensors (app (scan_sensors hc now w)) ! i = sensors w ! i"
proof -
  have "i = 0 \<or> i = Suc 0 \<or> i = 2 \<or> i = 3" using assms(3) by auto
  then show ?thesis
    using assms(1,2)
    by (elim disjE) (simp_all add: scan_unfold visit_not_due sensors_ok_nth_other visit_sensors_ok)
qed

lemma initSensor_nth:
  assumes "i = sid_value sid" and "i < length (sensors w)"
  shows "sensors (initSensor now sid ival c w) ! i =
           \<lparr>sensor_id = sid, interval = ival,
            nextDue = (if 0 < ival
                       then now + ival + uniform (unif w 0) (- (ival * jitterFrac w))
                                           (ival * jitterFrac w)
                       else SIMTIME_MAX),
            lastValue = None, counter = 0, isCounter = c\<rparr>"
    and "j \<noteq> sid_value sid \<Longrightarrow> sensors (initSensor now sid ival c w) ! j = sensors w ! j"
  using assms
  by (simp_all add: initSensor_def set_sensor_def draw_unif_def Let_def)

lemma initialize0_nth:
  assumes "length (sensors w) = 4"
  shows "sensor_id (sensors (initialize hc p now 0 w) ! 0) = SID_TEMPERATURE"
    and "sensor_id (sensors (initialize hc p now 0 w) ! Suc 0) = SID_NO2"
    and "sensor_id (sensors (initialize hc p now 0 w) ! 2) = SID_HUMIDITY"
    and "sensor_id (sensors (initialize hc p now 0 w) ! 3) = SID_COUNTER"
    and "interval (sensors (initialize hc p now 0 w) ! 0) = par_temperatureInterval p"
    and "interval (sensors (initialize hc p now 0 w) ! Suc 0) = par_no2Interval p"
    and "interval (sensors (initialize hc p now 0 w) ! 2) = par_humidityInterval p"
    and "interval (sensors (initialize hc p now 0 w) ! 3) = par_counterInterval p"
    and "counter (sensors (initialize hc p now 0 w) ! 3) = 0"
    and "par_temperatureInterval p \<le> 0 \<Longrightarrow>
           nextDue (sensors (initialize hc p now 0 w) ! 0) = SIMTIME_MAX"
    and "par_no2Interval p \<le> 0 \<Longrightarrow>
           nextDue (sensors (initialize hc p now 0 w) ! Suc 0) = SIMTIME_MAX"
    and "par_humidityInterval p \<le> 0 \<Longrightarrow>
           nextDue (sensors (initialize hc p now 0 w) ! 2) = SIMTIME_MAX"
    and "par_counterInterval p \<le> 0 \<Longrightarrow>
           nextDue (sensors (initialize hc p now 0 w) ! 3) = SIMTIME_MAX"
  using assms
  by (simp_all add: initialize_def Let_def initSensor_nth initSensor_frame)

lemma initialize0_sensors_ok:
  assumes "length (sensors w) = 4"
  shows "sensors_ok (initialize hc p now 0 w)"
proof -
  have "length (sensors (initialize hc p now 0 w)) = 4"
    using assms by (simp add: initialize0_frame)
  then obtain a b c d where l: "sensors (initialize hc p now 0 w) = [a, b, c, d]"
    using length_4_conv by blast
  show ?thesis
    using initialize0_nth(1-4)[OF assms, of hc p now]
    by (simp add: sensors_ok_def l)
qed

lemma startup_sensors_ok: "sensors_ok (startup hc p now (constructed ids us zs))"
  by (simp add: startup_cases sensors_ok_frame initialize0_sensors_ok initialize0_frame
        constructed_sensors)

lemma handleMessage_sensors_ok:
  "sensors_ok w \<Longrightarrow> sensors_ok (snd (handleMessage hc p t SchedulerMsg w))"
  by (simp add: handleMessage_scheduler sampleAndSendIfDue_snd sensors_ok_frame scan_sensors_ok)

lemma run_sensors_ok: "sensors_ok w \<Longrightarrow> sensors_ok (snd (run hc p evs w))"
  by (rule run_invariant[where I = sensors_ok])
     (simp_all add: handleMessage_sensors_ok sensors_ok_frame)

lemma run_untagged:
  assumes "loRaRadio w = None"
  shows "\<forall>pkt \<in> set (sent_packets (fst (run hc p evs w))). loRaTag pkt = None"
proof (rule run_packets[where I = "\<lambda>v. loRaRadio v = None"])
  show "loRaRadio w = None" by (rule assms)
next
  fix v :: wlam_sensor_app and t
  assume "loRaRadio v = None"
  then show "loRaRadio (snd (handleMessage hc p t SchedulerMsg (v\<lparr>scheduledAt := None\<rparr>))) = None"
    by (simp add: handleMessage_radio)
next
  fix v :: wlam_sensor_app and t pkt
  assume n: "loRaRadio v = None"
    and "pkt \<in> set (sent_packets
                 (fst (handleMessage hc p t SchedulerMsg (v\<lparr>scheduledAt := None\<rparr>))))"
  then have "pkt \<in> set (sent_packets (fst (sampleAndSendIfDue hc p t (v\<lparr>scheduledAt := None\<rparr>))))"
    by (simp add: handleMessage_scheduler)
  then show "loRaTag pkt = None"
    by (rule sent_packet_fields(6)) (simp add: n)
qed

lemma some_due_bitmap:
  assumes "presence_bits hc" and "\<exists>i < sid_value SID_COUNT. nextDue (sensors w ! i) \<le> now"
  shows "due_bitmap hc now w \<noteq> SB_NONE hc"
proof -
  obtain i where "i < 4" and d: "nextDue (sensors w ! i) \<le> now" using assms(2) by auto
  then have "i = 0 \<or> i = Suc 0 \<or> i = 2 \<or> i = 3" by auto
  then show ?thesis
    using d by (auto simp: due_bitmap_bits(5)[OF assms(1)])
qed

lemma example_first_event:
  "run example_consts example_params [TimerFires]
     ((example_node 10 20 30 5)\<lparr>scheduledAt := Some 5\<rparr>) =
   handleMessage example_consts example_params 5 SchedulerMsg (example_node 10 20 30 5)"
  by (simp add: example_node_def split: prod.split)

lemma example_first_event_sent:
  "\<exists>pkt. sent_packets (fst (handleMessage example_consts example_params 5 SchedulerMsg
                             (example_node 10 20 30 5))) = [pkt]"
proof -
  have "due_bitmap example_consts 5 (example_node 10 20 30 5) = 8"
    by (simp add: due_bitmap_def example_node_simps example_consts_def)
  then have "due_bitmap example_consts 5 (example_node 10 20 30 5) \<noteq> SB_NONE example_consts"
    by (simp add: example_consts_def)
  then show ?thesis
    unfolding handleMessage_scheduler fst_conv
    by (rule sampleAndSendIfDue_one_packet[OF example_node_simps(1)])
qed

lemma example_first_event_temperature:
  "nextDue (sensors (snd (handleMessage example_consts example_params 5 SchedulerMsg
                            (example_node 10 20 30 5))) ! 0) = 10"
  by (simp add: handleMessage_scheduler scheduleNext_frame sampleAndSendIfDue_snd
        scan_nth_not_due example_node_simps)

lemmas eval_defs = handleMessage_def sampleAndSendIfDue_def scan_unfold visit_def sample_def
  reschedule_def genTemperature_eq genHumidity_eq genNO2_eq set_sensor_def draw_unif_def
  uniform_def normal_def init_locals_def scheduleNext_def earliestNextDue_def upt_4
  SIMTIME_MAX_def attachLoRaTag_def wire_bytes_def sizeof_simtime_t_def sizeof_double_def
  Let_def example_node_def example_consts_def example_params_def

lemma example_five:
  "emitted sigCounter
     (fst (run example_consts example_params
             [TimerFires, TimerFires, TimerFires, TimerFires, TimerFires]
             ((example_node 10 20 30 5)\<lparr>scheduledAt := Some 5\<rparr>))) =
   [LongValue 1, LongValue 2, LongValue 3, LongValue 4, LongValue 5]"
  by (simp add: eval_defs emitted_append)

subsection \<open>The counter across events\<close>

lemma sampleAndSendIfDue_counter:
  assumes "sensors_ok w"
  shows "emitted sigCounter (fst (sampleAndSendIfDue hc p now w)) =
           (if nextDue (sensors w ! 3) \<le> now
            then [LongValue (sint (counter (sensors w ! 3) + 1))] else [])"
    and "counter (sensors (snd (sampleAndSendIfDue hc p now w)) ! 3) =
           (if nextDue (sensors w ! 3) \<le> now
            then counter (sensors w ! 3) + 1 else counter (sensors w ! 3))"
  by (simp_all add: sampleAndSendIfDue_emitted sampleAndSendIfDue_snd
        scan_emitted_counter[OF assms])

lemma deliver_counter:
  assumes "sensors_ok w"
  shows "sensors_ok (snd (deliver hc p e w)) \<and>
         ((emitted sigCounter (fst (deliver hc p e w)) = [] \<and>
           counter (sensors (snd (deliver hc p e w)) ! 3) = counter (sensors w ! 3)) \<or>
          (emitted sigCounter (fst (deliver hc p e w)) =
             [LongValue (sint (counter (sensors w ! 3) + 1))] \<and>
           counter (sensors (snd (deliver hc p e w)) ! 3) = counter (sensors w ! 3) + 1))"
proof -
  consider "deliver hc p e w = ([], w)"
    | t where "scheduledAt w = Some t"
        "deliver hc p e w = handleMessage hc p t SchedulerMsg (w\<lparr>scheduledAt := None\<rparr>)"
    using deliver_cases[of hc p e w] by blast
  then show ?thesis
  proof cases
    case 1
    then show ?thesis using assms by simp
  next
    case 2
    have ok: "sensors_ok (w\<lparr>scheduledAt := None\<rparr>)" using assms by (simp add: sensors_ok_frame)
    show ?thesis
      unfolding 2(2)
      using handleMessage_sensors_ok[OF ok, of hc p t] sampleAndSendIfDue_counter[OF ok, of hc p t]
      by (simp add: handleMessage_scheduler scheduleNext_frame)
  qed
qed

lemma run_counter:
  assumes "sensors_ok w"
  shows "\<exists>n. emitted sigCounter (fst (run hc p evs w)) =
               map (\<lambda>j. LongValue (sint (counter (sensors w ! 3) + word_of_nat (Suc j)))) [0..<n] \<and>
             counter (sensors (snd (run hc p evs w)) ! 3) =
               counter (sensors w ! 3) + word_of_nat n"
  using assms
proof (induction evs arbitrary: w)
  case Nil
  show ?case by (intro exI[of _ 0]) simp
next
  case (Cons e evs)
  let ?w1 = "snd (deliver hc p e w)"
  let ?c = "counter (sensors w ! 3)"
  have d: "sensors_ok ?w1"
    and k: "(emitted sigCounter (fst (deliver hc p e w)) = [] \<and>
             counter (sensors ?w1 ! 3) = ?c) \<or>
            (emitted sigCounter (fst (deliver hc p e w)) = [LongValue (sint (?c + 1))] \<and>
             counter (sensors ?w1 ! 3) = ?c + 1)"
    using deliver_counter[OF Cons.prems, of hc p e] by blast+
  obtain n where
    es: "emitted sigCounter (fst (run hc p evs ?w1)) =
           map (\<lambda>j. LongValue (sint (counter (sensors ?w1 ! 3) + word_of_nat (Suc j)))) [0..<n]"
    and c: "counter (sensors (snd (run hc p evs ?w1)) ! 3) =
           counter (sensors ?w1 ! 3) + word_of_nat n"
    using Cons.IH[OF d] by blast
  from k show ?case
  proof
    assume "emitted sigCounter (fst (deliver hc p e w)) = [] \<and> counter (sensors ?w1 ! 3) = ?c"
    then show ?thesis
      using es c unfolding run_Cons by (intro exI[of _ n]) (simp add: emitted_append)
  next
    assume a: "emitted sigCounter (fst (deliver hc p e w)) = [LongValue (sint (?c + 1))] \<and>
               counter (sensors ?w1 ! 3) = ?c + 1"
    have "emitted sigCounter (fst (run hc p (e # evs) w)) =
            LongValue (sint (?c + 1)) #
            map (\<lambda>j. LongValue (sint (?c + 1 + word_of_nat (Suc j)))) [0..<n]"
      using a es unfolding run_Cons by (simp add: emitted_append)
    also have "\<dots> = map (\<lambda>j. LongValue (sint (?c + word_of_nat (Suc j)))) [0..<Suc n]"
      unfolding map_upt_Suc by (simp add: add.assoc)
    finally have "emitted sigCounter (fst (run hc p (e # evs) w)) =
            map (\<lambda>j. LongValue (sint (?c + word_of_nat (Suc j)))) [0..<Suc n]" .
    moreover have "counter (sensors (snd (run hc p (e # evs) w)) ! 3) = ?c + word_of_nat (Suc n)"
      using a c unfolding run_Cons by (simp add: add.assoc)
    ultimately show ?thesis by blast
  qed
qed

lemma startup_counter_zero:
  "counter (sensors (startup hc p t0 (constructed ids us zs)) ! 3) = 0"
  by (simp add: startup_cases scheduleNext_frame applyInitialLoRaParams_def
        initialize0_nth initialize0_frame constructed_sensors split: option.split)

lemma sint_small_nat:
  assumes "m < 2 ^ 31"
  shows "sint (word_of_nat m :: 32 word) = int m"
proof -
  have "sint (word_of_nat m :: 32 word) = sint (word_of_int (int m) :: 32 word)"
    by simp
  also have "\<dots> = signed_take_bit (LENGTH(32) - 1) (int m)"
    by (rule sint_sbintrunc')
  also have "\<dots> = int m"
    using assms by (intro signed_take_bit_int_eq_self) simp_all
  finally show ?thesis .
qed

lemma startup_counter_values:
  fixes n :: nat
  assumes "n = length (emitted sigCounter
                         (fst (run hc p evs (startup hc p t0 (constructed ids us zs)))))"
    and "n < 2 ^ 31"
  shows "emitted sigCounter (fst (run hc p evs (startup hc p t0 (constructed ids us zs)))) =
           map (\<lambda>j. LongValue (int j)) [1..<Suc n]"
proof -
  let ?w0 = "startup hc p t0 (constructed ids us zs)"
  obtain m where
    es: "emitted sigCounter (fst (run hc p evs ?w0)) =
           map (\<lambda>j. LongValue (sint (counter (sensors ?w0 ! 3) + word_of_nat (Suc j)))) [0..<m]"
    using run_counter[OF startup_sensors_ok, of hc p evs hc p t0 ids us zs] by blast
  have m: "m = n" using assms(1) es by simp
  have "map (\<lambda>j. LongValue (sint (0 + word_of_nat (Suc j) :: 32 word))) [0..<n] =
        map (\<lambda>j. LongValue (int (Suc j))) [0..<n]"
  proof (rule map_cong[OF refl])
    fix j assume "j \<in> set [0..<n]"
    then have "Suc j < 2 ^ 31" using assms(2) by simp
    then show "LongValue (sint (0 + word_of_nat (Suc j) :: 32 word)) = LongValue (int (Suc j))"
      using sint_small_nat[of "Suc j"] by simp
  qed
  also have "\<dots> = map (\<lambda>j. LongValue (int j)) (map Suc [0..<n])" by (simp add: comp_def)
  also have "map Suc [0..<n] = [1..<Suc n]" by (simp add: map_Suc_upt)
  finally show ?thesis
    using es by (simp add: m startup_counter_zero)
qed

subsection \<open>Disabled quantities across events\<close>

lemma visit_disabled:
  assumes "sensors_ok (app st)" and "i < 4" and "j < 4" and "disabled (app st) j"
  shows "disabled (app (visit hc now i st)) j"
proof (cases "j = i")
  case False
  then show ?thesis
    using assms by (simp add: disabled_def sensors_ok_nth_other)
next
  case True
  have len: "i < length (sensors (app st))" using assms(1,2) by (simp add: sensors_ok_length)
  show ?thesis
  proof (cases "nextDue (sensors (app st) ! i) \<le> now")
    case False
    then show ?thesis using assms(4) True by (simp add: visit_not_due)
  next
    case due: True
    show ?thesis
      using assms(4) True visit_nextDue[OF len due, of hc] visit_interval[OF len, of hc now i]
      by (simp add: disabled_def)
  qed
qed

lemma scan_disabled:
  assumes "sensors_ok w" and "j < 4" and "disabled w j"
  shows "disabled (app (scan_sensors hc now w)) j"
  using assms
  by (simp add: scan_unfold visit_disabled visit_sensors_ok)

lemma scheduleNext_timer_ok: "scheduledAt w = None \<Longrightarrow> timer_ok (scheduleNext w)"
  by (simp add: timer_ok_def scheduleNext_def Let_def)

lemma disabled_frame:
  "disabled (w\<lparr>scheduledAt := x\<rparr>) j = disabled w j"
  "disabled (scheduleNext w) j = disabled w j"
  "disabled (applyInitialLoRaParams w) j = disabled w j"
  by (simp_all add: disabled_def scheduleNext_frame applyInitialLoRaParams_def split: option.split)

lemma handleMessage_disabled:
  assumes "sensors_ok w" and "j < 4" and "disabled w j"
  shows "disabled (snd (handleMessage hc p t SchedulerMsg w)) j"
  using scan_disabled[OF assms]
  by (simp add: handleMessage_scheduler sampleAndSendIfDue_snd disabled_frame)

lemma handleMessage_timer_ok:
  "scheduledAt w = None \<Longrightarrow> timer_ok (snd (handleMessage hc p t SchedulerMsg w))"
  by (simp add: handleMessage_scheduler sampleAndSendIfDue_snd scheduleNext_timer_ok scan_frame)

lemma disabled_not_due: "disabled w j \<Longrightarrow> t < SIMTIME_MAX \<Longrightarrow> \<not> nextDue (sensors w ! j) \<le> t"
  by (simp add: disabled_def)

lemma sent_packet_due_bitmap:
  assumes "sensors_ok w" and "pkt \<in> set (sent_packets (fst (sampleAndSendIfDue hc p now w)))"
  shows "getBitmap (payload pkt) = due_bitmap hc now w"
  using sent_packet_fields(1)[OF assms(2)] scan_due_bitmap[OF assms(1)] by simp

lemma startup_timer_ok: "timer_ok (startup hc p t0 (constructed ids us zs))"
proof (cases "INITSTAGE_APPLICATION_LAYER hc = 0")
  case True
  then show ?thesis
    by (simp add: startup_cases timer_ok_def initialize0_frame constructed_fields)
next
  case False
  have "scheduledAt (applyInitialLoRaParams (initialize hc p t0 0 (constructed ids us zs))) = None"
    by (simp add: applyInitialLoRaParams_def initialize0_frame constructed_fields
          split: option.split)
  then show ?thesis
    using False by (simp add: startup_cases scheduleNext_timer_ok)
qed

lemma startup_disabled:
  shows "par_temperatureInterval p \<le> 0 \<Longrightarrow> disabled (startup hc p t0 (constructed ids us zs)) 0"
    and "par_no2Interval p \<le> 0 \<Longrightarrow> disabled (startup hc p t0 (constructed ids us zs)) (Suc 0)"
    and "par_humidityInterval p \<le> 0 \<Longrightarrow> disabled (startup hc p t0 (constructed ids us zs)) 2"
    and "par_counterInterval p \<le> 0 \<Longrightarrow> disabled (startup hc p t0 (constructed ids us zs)) 3"
  by (simp_all add: startup_cases disabled_frame)
     (simp_all add: disabled_def initialize0_nth initialize0_frame constructed_sensors)

lemma run_disabled_packets:
  assumes "sensors_ok w" and "timer_ok w" and "disabled w j" and "j < 4"
    and Q: "\<And>v t. sensors_ok v \<Longrightarrow> disabled v j \<Longrightarrow> t < SIMTIME_MAX \<Longrightarrow>
                 Q (due_bitmap hc t v)"
  shows "disabled (snd (run hc p evs w)) j"
    and "\<forall>pkt \<in> set (sent_packets (fst (run hc p evs w))). Q (getBitmap (payload pkt))"
proof -
  let ?I = "\<lambda>v. sensors_ok v \<and> timer_ok v \<and> disabled v j"
  have init: "?I w" using assms(1-3) by simp
  have step: "?I (snd (handleMessage hc p t SchedulerMsg (v\<lparr>scheduledAt := None\<rparr>)))"
    if "?I v" and "scheduledAt v = Some t" for v :: wlam_sensor_app and t
  proof -
    have ok: "sensors_ok (v\<lparr>scheduledAt := None\<rparr>)" using that(1) by (simp add: sensors_ok_frame)
    have dis: "disabled (v\<lparr>scheduledAt := None\<rparr>) j" using that(1) by (simp add: disabled_frame)
    show ?thesis
      using handleMessage_sensors_ok[OF ok] handleMessage_disabled[OF ok assms(4) dis]
        handleMessage_timer_ok[of "v\<lparr>scheduledAt := None\<rparr>"]
      by simp
  qed
  have pk: "Q (getBitmap (payload pkt))"
    if "?I v" and "scheduledAt v = Some t"
      and "pkt \<in> set (sent_packets
                     (fst (handleMessage hc p t SchedulerMsg (v\<lparr>scheduledAt := None\<rparr>))))"
    for v :: wlam_sensor_app and t pkt
  proof -
    have ok: "sensors_ok (v\<lparr>scheduledAt := None\<rparr>)" using that(1) by (simp add: sensors_ok_frame)
    have dis: "disabled (v\<lparr>scheduledAt := None\<rparr>) j" using that(1) by (simp add: disabled_frame)
    have t: "t < SIMTIME_MAX" using that(1,2) by (simp add: timer_ok_def)
    have "pkt \<in> set (sent_packets (fst (sampleAndSendIfDue hc p t (v\<lparr>scheduledAt := None\<rparr>))))"
      using that(3) by (simp add: handleMessage_scheduler)
    then have "getBitmap (payload pkt) = due_bitmap hc t (v\<lparr>scheduledAt := None\<rparr>)"
      by (rule sent_packet_due_bitmap[OF ok])
    then show ?thesis using Q[OF ok dis t] by simp
  qed
  have "?I (snd (run hc p evs w))"
    using init step by (rule run_invariant[where I = ?I])
  then show "disabled (snd (run hc p evs w)) j" by simp
  show "\<forall>pkt \<in> set (sent_packets (fst (run hc p evs w))). Q (getBitmap (payload pkt))"
    using init step pk by (rule run_packets[where I = ?I])
qed

lemmas startup_eval_defs = startup_def initialize_def example_consts_def example_params_def
  constructed_def upt_4 initSensor_def set_sensor_def draw_unif_def uniform_def
  applyInitialLoRaParams_def scheduleNext_def earliestNextDue_def SIMTIME_MAX_def Let_def

lemma example_T_only_startup:
  "scheduledAt (startup example_consts example_params_T_only 0
                  (constructed (\<lambda>i. SID_COUNT) (\<lambda>n. 1 / 2) (\<lambda>n. 0))) = Some 10"
  "nextDue (sensors (startup example_consts example_params_T_only 0
                       (constructed (\<lambda>i. SID_COUNT) (\<lambda>n. 1 / 2) (\<lambda>n. 0))) ! 0) = 10"
  by (simp_all add: example_params_T_only_def startup_eval_defs)

lemma example_C_only_startup:
  "scheduledAt (startup example_consts example_params_C_only 0
                  (constructed (\<lambda>i. SID_COUNT) (\<lambda>n. 1 / 2) (\<lambda>n. 0))) = Some 5"
  "nextDue (sensors (startup example_consts example_params_C_only 0
                       (constructed (\<lambda>i. SID_COUNT) (\<lambda>n. 1 / 2) (\<lambda>n. 0))) ! 3) = 5"
  by (simp_all add: example_params_C_only_def startup_eval_defs)

lemma run_single_timer:
  "scheduledAt w = Some t \<Longrightarrow>
     run hc p [TimerFires] w = handleMessage hc p t SchedulerMsg (w\<lparr>scheduledAt := None\<rparr>)"
  by (simp split: prod.split)

lemma first_timer_packet:
  assumes "presence_bits hc" and "sensors_ok w" and "scheduledAt w = Some t"
    and "i < 4" and "nextDue (sensors w ! i) \<le> t"
  shows "\<exists>pkt. sent_packets (fst (run hc p [TimerFires] w)) = [pkt] \<and>
               getBitmap (payload pkt) = due_bitmap hc t (w\<lparr>scheduledAt := None\<rparr>)"
proof -
  let ?v = "w\<lparr>scheduledAt := None\<rparr>"
  have ok: "sensors_ok ?v" using assms(2) by (simp add: sensors_ok_frame)
  have "\<exists>i < sid_value SID_COUNT. nextDue (sensors ?v ! i) \<le> t"
    using assms(4,5) by (intro exI[of _ i]) simp
  then have ne: "due_bitmap hc t ?v \<noteq> SB_NONE hc" by (rule some_due_bitmap[OF assms(1)])
  obtain pkt where one: "sent_packets (fst (sampleAndSendIfDue hc p t ?v)) = [pkt]"
    using sampleAndSendIfDue_one_packet[OF ok ne] by blast
  then have "pkt \<in> set (sent_packets (fst (sampleAndSendIfDue hc p t ?v)))" by simp
  then have "getBitmap (payload pkt) = due_bitmap hc t ?v" by (rule sent_packet_due_bitmap[OF ok])
  then show ?thesis
    using one unfolding run_single_timer[OF assms(3)] handleMessage_scheduler fst_conv by blast
qed

subsection \<open>Rescheduling\<close>









subsection \<open>The gate of the packets sent\<close>

lemma sends_append: "sends (xs @ ys) = sends xs @ sends ys"
proof (induction xs)
  case Nil
  show ?case by simp
next
  case (Cons e xs)
  then show ?case by (cases e) simp_all
qed

lemma visit_sends: "sends (out (visit hc now i st)) = sends (out st)"
  by (simp add: step_defs sends_append split: SensorID.splits)

lemma scan_sends: "sends (out (scan_sensors hc now w)) = []"
  by (simp add: scan_unfold visit_sends)

lemma sampleAndSendIfDue_no_radio:
  assumes "loRaRadio w = None" and "bitmap (vars (scan_sensors hc now w)) \<noteq> SB_NONE hc"
  shows "fst (sampleAndSendIfDue hc p now w) =
           out (scan_sensors hc now w) @
           [Send \<lparr>getName = ''sensorAggUplink'',
                  payload =
                    \<lparr>getBitmap = bitmap (vars (scan_sensors hc now w)),
                     getTemperature = temperature (vars (scan_sensors hc now w)),
                     getNo2 = no2 (vars (scan_sensors hc now w)),
                     getHumidity = humidity (vars (scan_sensors hc now w)),
                     getCounter = counterVal (vars (scan_sensors hc now w)),
                     getNodeId = fullPath p, getCreatedAt = now,
                     getChunkLength =
                       wire_bytes hc (basePayloadBytes w) (par_counterPayloadBytes p)
                         (bitmap (vars (scan_sensors hc now w)))\<rparr>,
                  loRaTag = None\<rparr> ''socketOut'',
            Emit sigPktSent (LongValue (bitmap (vars (scan_sensors hc now w))))]"
  using assms
  by (simp add: sampleAndSendIfDue_def Let_def scan_frame attachLoRaTag_def)

lemma sampleAndSendIfDue_sends:
  "sends (fst (sampleAndSendIfDue hc p now w)) =
     map (\<lambda>pkt. (pkt, ''socketOut'')) (sent_packets (fst (sampleAndSendIfDue hc p now w)))"
  by (simp add: sampleAndSendIfDue_def Let_def sends_append sent_packets_append scan_sends
        scan_sent)

lemma run_sends:
  assumes "I w"
    and "\<And>w t. I w \<Longrightarrow> scheduledAt w = Some t \<Longrightarrow>
           I (snd (handleMessage hc p t SchedulerMsg (w\<lparr>scheduledAt := None\<rparr>)))"
    and "\<And>w t x. I w \<Longrightarrow> scheduledAt w = Some t \<Longrightarrow>
           x \<in> set (sends (fst (handleMessage hc p t SchedulerMsg (w\<lparr>scheduledAt := None\<rparr>)))) \<Longrightarrow>
           Q x"
  shows "\<forall>x \<in> set (sends (fst (run hc p evs w))). Q x"
  using assms(1)
proof (induction evs arbitrary: w)
  case Nil
  then show ?case by simp
next
  case (Cons e evs)
  have inv: "I (snd (deliver hc p e w))"
    using deliver_cases[of hc p e w] Cons.prems assms(2)[of w] by auto
  have here: "\<forall>x \<in> set (sends (fst (deliver hc p e w))). Q x"
    using deliver_cases[of hc p e w] Cons.prems assms(3)[of w] by auto
  have rest: "\<forall>x \<in> set (sends (fst (run hc p evs (snd (deliver hc p e w))))). Q x"
    using inv by (rule Cons.IH)
  show ?case
    using here rest by (auto simp only: run_Cons sends_append set_append)
qed

lemma run_sends_uplink:
  assumes "loRaRadio w = None"
  shows "\<forall>x \<in> set (sends (fst (run hc p evs w))). snd x = ''socketOut'' \<and> loRaTag (fst x) = None"
proof (rule run_sends[where I = "\<lambda>v. loRaRadio v = None"])
  show "loRaRadio w = None" by (rule assms)
next
  fix v :: wlam_sensor_app and t
  assume "loRaRadio v = None"
  then show "loRaRadio (snd (handleMessage hc p t SchedulerMsg (v\<lparr>scheduledAt := None\<rparr>))) = None"
    by (simp add: handleMessage_radio)
next
  fix v :: wlam_sensor_app and t x
  assume n: "loRaRadio v = None"
    and "x \<in> set (sends (fst (handleMessage hc p t SchedulerMsg (v\<lparr>scheduledAt := None\<rparr>))))"
  then have x: "x \<in> set (sends (fst (sampleAndSendIfDue hc p t (v\<lparr>scheduledAt := None\<rparr>))))"
    by (simp add: handleMessage_scheduler)
  then obtain pkt where x: "x = (pkt, ''socketOut'')"
    and m: "pkt \<in> set (sent_packets (fst (sampleAndSendIfDue hc p t (v\<lparr>scheduledAt := None\<rparr>))))"
    by (auto simp: sampleAndSendIfDue_sends)
  have "loRaTag pkt = None"
    using m by (rule sent_packet_fields(6)) (simp add: n)
  then show "snd x = ''socketOut'' \<and> loRaTag (fst x) = None"
    using x by simp
qed

lemma example_first_event_state:
  "due_bitmap example_consts 10
     (snd (handleMessage example_consts example_params 5 SchedulerMsg
             (example_node 10 20 30 5))) = 13"
  "basePayloadBytes
     (snd (handleMessage example_consts example_params 5 SchedulerMsg
             (example_node 10 20 30 5))) = 10"
  by (simp_all add: due_bitmap_def eval_defs)

lemma example_wire_bytes_13: "wire_bytes example_consts 10 4 13 = 39"
  by (simp add: wire_bytes_eq example_consts_def)

section \<open>The path-loss collaborator\<close>

text \<open>
  C9. The total loss is the parent's free-space loss plus a vegetation term: for a
  foliage depth \<open>d\<close> with \<open>0 < d \<le> 14\<close> the term is \<open>0.45 * fGHz^0.284 * d\<close>, for
  \<open>d > 14\<close> it is \<open>1.33 * fGHz^0.284 * d^0.588\<close>, and for \<open>d \<le> 0\<close> it is zero,
  whatever the distance and the frequency are.
\<close>

theorem computePathLoss_weissberger:
  "(0 < d \<and> d \<le> 14 \<longrightarrow>
      computePathLoss fspl d x f =
        fspl x f + 0.45 * (f / 1000000000) powr 0.284 * d) \<and>
   (14 < d \<longrightarrow>
      computePathLoss fspl d x f =
        fspl x f + 1.33 * (f / 1000000000) powr 0.284 * d powr 0.588) \<and>
   (d \<le> 0 \<longrightarrow> computePathLoss fspl d x f = fspl x f)"
  by (simp add: computePathLoss_def Let_def)

theorem computePathLoss_weissberger_witness:
  "(0::real) < 10 \<and> (10::real) \<le> 14 \<and>
   computePathLoss (\<lambda>d f. 100) 10 1000 868000000 =
     100 + 0.45 * (868000000 / 1000000000) powr 0.284 * 10 \<and>
   (14::real) < 20 \<and>
   computePathLoss (\<lambda>d f. 100) 20 1000 868000000 =
     100 + 1.33 * (868000000 / 1000000000) powr 0.284 * 20 powr 0.588 \<and>
   (0::real) \<le> 0 \<and>
   computePathLoss (\<lambda>d f. 100) 0 1000 868000000 = 100"
  using computePathLoss_weissberger [of 10 "\<lambda>d f. 100" 1000 868000000]
    computePathLoss_weissberger [of 20 "\<lambda>d f. 100" 1000 868000000]
    computePathLoss_weissberger [of 0 "\<lambda>d f. 100" 1000 868000000]
  by simp

section \<open>The wake-up cycle\<close>

text \<open>
  C6. At a wake-up at which no quantity has \<open>nextDue \<le> now\<close>, \<open>sampleAndSendIfDue\<close>
  has no effect at all: no packet is sent, no signal is emitted (neither a reading nor
  the packets-sent signal), and the module, with every quantity's state, is unchanged.
  The whole callback emits nothing and leaves the sensors as they were.
\<close>

theorem no_quantity_due_silent:
  assumes "\<forall>i < sid_value SID_COUNT. \<not> nextDue (sensors w ! i) \<le> now"
  shows "sampleAndSendIfDue hc p now w = ([], w) \<and>
         fst (handleMessage hc p now SchedulerMsg w) = [] \<and>
         sensors (snd (handleMessage hc p now SchedulerMsg w)) = sensors w"
proof -
  have d: "\<not> nextDue (sensors w ! 0) \<le> now" "\<not> nextDue (sensors w ! Suc 0) \<le> now"
    "\<not> nextDue (sensors w ! 2) \<le> now" "\<not> nextDue (sensors w ! 3) \<le> now"
    using assms by simp_all
  have "scan_sensors hc now w = \<lparr>out = [], vars = init_locals hc, app = w\<rparr>"
    by (simp add: scan_unfold visit_not_due d)
  then have s: "sampleAndSendIfDue hc p now w = ([], w)"
    by (simp add: sampleAndSendIfDue_def init_locals_def)
  then show ?thesis
    by (simp add: handleMessage_def scheduleNext_frame)
qed

theorem no_quantity_due_silent_witness:
  "\<not> nextDue (sensors (example_node 50 60 70 80) ! 0) \<le> 10 \<and>
   \<not> nextDue (sensors (example_node 50 60 70 80) ! 1) \<le> 10 \<and>
   \<not> nextDue (sensors (example_node 50 60 70 80) ! 2) \<le> 10 \<and>
   \<not> nextDue (sensors (example_node 50 60 70 80) ! 3) \<le> 10 \<and>
   sampleAndSendIfDue example_consts example_params 10 (example_node 50 60 70 80) =
     ([], example_node 50 60 70 80) \<and>
   fst (handleMessage example_consts example_params 10 SchedulerMsg (example_node 50 60 70 80)) = []"
proof -
  have h: "\<forall>i < sid_value SID_COUNT. \<not> nextDue (sensors (example_node 50 60 70 80) ! i) \<le> 10"
    by (simp add: example_node_def less_Suc_eq numeral_eq_Suc)
  show ?thesis
    using no_quantity_due_silent [OF h, of example_consts example_params]
    by (simp add: example_node_simps)
qed

text \<open>
  C2. At every wake-up at which the temperature quantity is due, exactly one packet is
  sent and its bitmap has the temperature bit and the humidity bit set; nothing is
  assumed about the humidity quantity's own \<open>nextDue\<close>.
\<close>

theorem temperature_due_sets_both_bits:
  assumes "presence_bits hc" and "sensors_ok w"
    and "nextDue (sensors w ! sid_value SID_TEMPERATURE) \<le> now"
  shows "\<exists>pkt. sent_packets (fst (sampleAndSendIfDue hc p now w)) = [pkt] \<and>
               getBitmap (payload pkt) AND SB_TEMPERATURE hc \<noteq> 0 \<and>
               getBitmap (payload pkt) AND SB_HUMIDITY hc \<noteq> 0"
proof -
  have due: "nextDue (sensors w ! 0) \<le> now" using assms(3) by simp
  have bm: "bitmap (vars (scan_sensors hc now w)) = due_bitmap hc now w"
    using assms(2) by (rule scan_due_bitmap)
  have ne: "due_bitmap hc now w \<noteq> SB_NONE hc"
    using due by (simp add: due_bitmap_bits(5)[OF assms(1)])
  have t: "due_bitmap hc now w AND SB_TEMPERATURE hc \<noteq> 0"
    using due by (simp add: due_bitmap_bits(1)[OF assms(1)])
  have h: "due_bitmap hc now w AND SB_HUMIDITY hc \<noteq> 0"
    using due by (simp add: due_bitmap_bits(3)[OF assms(1)])
  show ?thesis
    using ne t h by (simp add: sampleAndSendIfDue_sent Let_def bm attachLoRaTag_def split: option.split)
qed

theorem temperature_due_sets_both_bits_witness:
  "presence_bits example_consts \<and> sensors_ok (example_node 100 200 300 400) \<and>
   nextDue (sensors (example_node 100 200 300 400) ! sid_value SID_TEMPERATURE) \<le> 100 \<and>
   \<not> nextDue (sensors (example_node 100 200 300 400) ! sid_value SID_HUMIDITY) \<le> 100 \<and>
   (\<exists>pkt. sent_packets
            (fst (sampleAndSendIfDue example_consts example_params 100
                    (example_node 100 200 300 400))) = [pkt] \<and>
          getBitmap (payload pkt) AND SB_TEMPERATURE example_consts \<noteq> 0 \<and>
          getBitmap (payload pkt) AND SB_HUMIDITY example_consts \<noteq> 0)"
proof -
  have d: "nextDue (sensors (example_node 100 200 300 400) ! sid_value SID_TEMPERATURE) \<le> 100"
    by (simp add: example_node_simps)
  show ?thesis
    using temperature_due_sets_both_bits
            [OF example_consts_presence example_node_simps(1) d, of example_params]
    by (simp add: example_consts_presence example_node_simps)
qed

text \<open>
  C3. For every packet sent, the chunk length is \<open>basePayloadBytes + 1 + 8\<close> plus 8 for
  each of the temperature, NO2 and humidity bits that is set in the packet's bitmap, plus
  \<open>counterPayloadBytes\<close> when the counter bit is set: as an equation between 64-bit
  values always, and as the integer sum of the spec's formula whenever that sum is
  representable. With \<open>basePayloadBytes = 10\<close> the size is 27 for NO2 alone, 35 for NO2
  and humidity, and 23 for the counter alone with \<open>counterPayloadBytes = 4\<close>. The size
  is a function of the bitmap and the two configuration constants.
\<close>

theorem wire_size_exact:
  "(\<forall>pkt \<in> set (sent_packets (fst (sampleAndSendIfDue hc p now w))).
      getChunkLength (payload pkt) =
        scast (basePayloadBytes w + 1) + 8
        + (if getBitmap (payload pkt) AND SB_TEMPERATURE hc \<noteq> 0 then 8 else 0)
        + (if getBitmap (payload pkt) AND SB_NO2 hc \<noteq> 0 then 8 else 0)
        + (if getBitmap (payload pkt) AND SB_HUMIDITY hc \<noteq> 0 then 8 else 0)
        + (if getBitmap (payload pkt) AND SB_COUNTER hc \<noteq> 0
           then par_counterPayloadBytes p else 0) \<and>
      (let S = spec_wire_size hc (sint (basePayloadBytes w))
                 (sint (par_counterPayloadBytes p)) (getBitmap (payload pkt))
       in sint (basePayloadBytes w) < 2147483647 \<and> - (2 ^ 63) \<le> S \<and> S < 2 ^ 63 \<longrightarrow>
          sint (getChunkLength (payload pkt)) = S)) \<and>
   (presence_bits hc \<longrightarrow>
      wire_bytes hc 10 cpb (SB_NO2 hc) = 27 \<and>
      wire_bytes hc 10 cpb (SB_NO2 hc OR SB_HUMIDITY hc) = 35 \<and>
      wire_bytes hc 10 4 (SB_COUNTER hc) = 23)"
proof (intro conjI ballI impI)
  fix pkt
  assume "pkt \<in> set (sent_packets (fst (sampleAndSendIfDue hc p now w)))"
  then have len: "getChunkLength (payload pkt) =
      wire_bytes hc (basePayloadBytes w) (par_counterPayloadBytes p) (getBitmap (payload pkt))"
    by (rule sent_packet_fields(3))
  show "getChunkLength (payload pkt) =
        scast (basePayloadBytes w + 1) + 8
        + (if getBitmap (payload pkt) AND SB_TEMPERATURE hc \<noteq> 0 then 8 else 0)
        + (if getBitmap (payload pkt) AND SB_NO2 hc \<noteq> 0 then 8 else 0)
        + (if getBitmap (payload pkt) AND SB_HUMIDITY hc \<noteq> 0 then 8 else 0)
        + (if getBitmap (payload pkt) AND SB_COUNTER hc \<noteq> 0
           then par_counterPayloadBytes p else 0)"
    unfolding len by (rule wire_bytes_eq)
  show "let S = spec_wire_size hc (sint (basePayloadBytes w))
                 (sint (par_counterPayloadBytes p)) (getBitmap (payload pkt))
       in sint (basePayloadBytes w) < 2147483647 \<and> - (2 ^ 63) \<le> S \<and> S < 2 ^ 63 \<longrightarrow>
          sint (getChunkLength (payload pkt)) = S"
    unfolding Let_def len
  proof (intro impI, elim conjE)
    assume "sint (basePayloadBytes w) < 2147483647"
      and "- (2 ^ 63) \<le> spec_wire_size hc (sint (basePayloadBytes w))
                 (sint (par_counterPayloadBytes p)) (getBitmap (payload pkt))"
      and "spec_wire_size hc (sint (basePayloadBytes w))
                 (sint (par_counterPayloadBytes p)) (getBitmap (payload pkt)) < 2 ^ 63"
    then show "sint (wire_bytes hc (basePayloadBytes w) (par_counterPayloadBytes p)
                  (getBitmap (payload pkt))) =
               spec_wire_size hc (sint (basePayloadBytes w))
                 (sint (par_counterPayloadBytes p)) (getBitmap (payload pkt))"
      by (rule wire_bytes_sint) (rule spec_wire_size_def)
  qed
next
  assume pb: "presence_bits hc"
  show "wire_bytes hc 10 cpb (SB_NO2 hc) = 27" by (rule wire_bytes_examples(1)[OF pb])
  show "wire_bytes hc 10 cpb (SB_NO2 hc OR SB_HUMIDITY hc) = 35"
    by (rule wire_bytes_examples(2)[OF pb])
  show "wire_bytes hc 10 4 (SB_COUNTER hc) = 23" by (rule wire_bytes_examples(3)[OF pb])
qed

theorem wire_size_exact_witness:
  "presence_bits example_consts \<and>
   sint (basePayloadBytes (example_node 200 100 300 400)) < 2147483647 \<and>
   (\<exists>pkt. sent_packets (fst (sampleAndSendIfDue example_consts example_params 100
                              (example_node 200 100 300 400))) = [pkt] \<and>
          getBitmap (payload pkt) = SB_NO2 example_consts \<and>
          getChunkLength (payload pkt) = 27 \<and>
          sint (getChunkLength (payload pkt)) = 10 + 1 + 8 + 8) \<and>
   wire_bytes example_consts 10 4 (SB_NO2 example_consts) = 27 \<and>
   wire_bytes example_consts 10 4 (SB_NO2 example_consts OR SB_HUMIDITY example_consts) = 35 \<and>
   wire_bytes example_consts 10 4 (SB_COUNTER example_consts) = 23"
proof -
  let ?w = "example_node 200 100 300 400"
  have ok: "sensors_ok ?w" by (rule example_node_simps(1))
  have ne: "due_bitmap example_consts 100 ?w \<noteq> SB_NONE example_consts"
    unfolding example_due_bitmap_no2 by (simp add: example_consts_def)
  obtain pkt where one:
    "sent_packets (fst (sampleAndSendIfDue example_consts example_params 100 ?w)) = [pkt]"
    using sampleAndSendIfDue_one_packet[OF ok ne] by blast
  then have mem:
    "pkt \<in> set (sent_packets (fst (sampleAndSendIfDue example_consts example_params 100 ?w)))"
    by simp
  have bm: "getBitmap (payload pkt) = 2"
    using sent_packet_fields(1)[OF mem] scan_due_bitmap[OF ok] example_due_bitmap_no2
    by simp
  have base: "basePayloadBytes ?w = 10" by (simp add: example_node_def)
  have cpb: "par_counterPayloadBytes example_params = 4" by (simp add: example_params_def)
  have bits: "SB_TEMPERATURE example_consts = 1" "SB_NO2 example_consts = 2"
    "SB_HUMIDITY example_consts = 4" "SB_COUNTER example_consts = 8"
    by (simp_all add: example_consts_def)
  note inst = wire_size_exact [of example_consts example_params 100 ?w 4]
  from inst mem have
    "getChunkLength (payload pkt) = 27 \<and> sint (getChunkLength (payload pkt)) = 27"
    unfolding one by (simp add: bm base cpb bits spec_wire_size_def Let_def)
  moreover from inst have
    "wire_bytes example_consts 10 4 (SB_NO2 example_consts) = 27 \<and>
     wire_bytes example_consts 10 4 (SB_NO2 example_consts OR SB_HUMIDITY example_consts) = 35 \<and>
     wire_bytes example_consts 10 4 (SB_COUNTER example_consts) = 23"
    using example_consts_presence by blast
  ultimately show ?thesis
    using one by (simp add: example_consts_presence bm base bits)
qed

text \<open>
  C10. At a wake-up at which both the temperature and the humidity quantity are due,
  the humidity reading is generated twice: once by the temperature case, from the second
  noise draw of the cycle, and once by the humidity case, from the next noise draw that
  is left when the loop reaches it (the third, or the fourth when NO2 was due in
  between). The humidity signal is emitted twice, with these two values in this order,
  and the packet carries the second one.
\<close>

theorem humidity_generated_twice:
  assumes "presence_bits hc" and "sensors_ok w"
    and "nextDue (sensors w ! sid_value SID_TEMPERATURE) \<le> now"
    and "nextDue (sensors w ! sid_value SID_HUMIDITY) \<le> now"
  shows "let hum = (\<lambda>z. baseHum w + ampHum w * sin (2 * pi * (now / 3600 / 24) + pi / 4)
                          + normal z 0 0.5);
             h1 = hum (gauss w 1);
             h2 = hum (gauss w (if nextDue (sensors w ! sid_value SID_NO2) \<le> now then 3 else 2))
         in emitted sigHum (fst (sampleAndSendIfDue hc p now w)) =
              [DoubleValue h1, DoubleValue h2] \<and>
            (\<exists>pkt. sent_packets (fst (sampleAndSendIfDue hc p now w)) = [pkt] \<and>
                   getHumidity (payload pkt) = Some h2)"
proof -
  have dT: "nextDue (sensors w ! 0) \<le> now" using assms(3) by simp
  have dH: "nextDue (sensors w ! 2) \<le> now" using assms(4) by simp
  note hum = scan_emitted_humidity[OF assms(2) dT dH, of hc]
  have ne: "bitmap (vars (scan_sensors hc now w)) \<noteq> SB_NONE hc"
    using dT by (simp add: scan_due_bitmap[OF assms(2)] due_bitmap_bits(5)[OF assms(1)])
  have em: "emitted sigHum (fst (sampleAndSendIfDue hc p now w)) =
            emitted sigHum (out (scan_sensors hc now w))"
    by (simp add: sampleAndSendIfDue_emitted)
  obtain pkt where one: "sent_packets (fst (sampleAndSendIfDue hc p now w)) = [pkt]"
    using ne by (simp add: sampleAndSendIfDue_sent Let_def)
  then have "pkt \<in> set (sent_packets (fst (sampleAndSendIfDue hc p now w)))" by simp
  then have hp: "getHumidity (payload pkt) = humidity (vars (scan_sensors hc now w))"
    by (rule sent_packet_fields(4))
  show ?thesis
    unfolding Let_def em one hum(1) using hp hum(2) by simp
qed

theorem humidity_generated_twice_witness:
  "presence_bits example_consts \<and>
   sensors_ok ((example_node 100 200 100 400)\<lparr>gauss := real\<rparr>) \<and>
   nextDue (sensors ((example_node 100 200 100 400)\<lparr>gauss := real\<rparr>) ! sid_value SID_TEMPERATURE)
     \<le> 100 \<and>
   nextDue (sensors ((example_node 100 200 100 400)\<lparr>gauss := real\<rparr>) ! sid_value SID_HUMIDITY)
     \<le> 100 \<and>
   emitted sigHum (fst (sampleAndSendIfDue example_consts example_params 100
                          ((example_node 100 200 100 400)\<lparr>gauss := real\<rparr>))) =
     [DoubleValue (50 + 10 * sin (2 * pi * (100 / 3600 / 24) + pi / 4) + normal 1 0 0.5),
      DoubleValue (50 + 10 * sin (2 * pi * (100 / 3600 / 24) + pi / 4) + normal 2 0 0.5)] \<and>
   (\<exists>pkt. sent_packets (fst (sampleAndSendIfDue example_consts example_params 100
                              ((example_node 100 200 100 400)\<lparr>gauss := real\<rparr>))) = [pkt] \<and>
          getHumidity (payload pkt) =
            Some (50 + 10 * sin (2 * pi * (100 / 3600 / 24) + pi / 4) + normal 2 0 0.5))"
proof -
  let ?w = "(example_node 100 200 100 400)\<lparr>gauss := real\<rparr>"
  have ok: "sensors_ok ?w" by (simp add: sensors_ok_def example_node_def)
  have dT: "nextDue (sensors ?w ! sid_value SID_TEMPERATURE) \<le> 100"
    by (simp add: example_node_def)
  have dH: "nextDue (sensors ?w ! sid_value SID_HUMIDITY) \<le> 100"
    by (simp add: example_node_def)
  show ?thesis
    using humidity_generated_twice [OF example_consts_presence ok dT dH, of example_params]
    by (simp add: Let_def example_consts_presence example_node_def sensors_ok_def)
qed

section \<open>The radio\<close>

text \<open>
  C1, as amended. Nothing the module does after its initialisation changes the radio:
  whatever messages the host delivers, wake-ups with their tagging included, the radio's
  state is afterwards what it was before. Stage 0 of the initialisation only stores the
  pointer to the radio that was found. The one write is \<open>applyInitialLoRaParams\<close>, at
  the application-layer stage: it overwrites the five parameters of a located radio with
  the configured initial values.
\<close>

theorem radio_written_at_startup_only:
  "loRaRadio (snd (run hc p evs w)) = loRaRadio w \<and>
   loRaRadio (initialize hc p now 0 w) =
     (case radioModule p of None \<Rightarrow> loRaRadio w | Some r \<Rightarrow> Some r) \<and>
   loRaRadio (applyInitialLoRaParams w) =
     map_option (\<lambda>r. r\<lparr>loRaTP := initTPdBm w, loRaCF := initCFHz w, loRaSF := initSF w,
                         loRaBW := initBWHZ w, loRaCR := initCR w\<rparr>) (loRaRadio w)"
  by (simp only: run_radio initialize0_frame(2) applyInitialLoRaParams_radio)

text \<open>
  The claim as stated fails: a radio found with spreading factor 7 has spreading factor
  12, and the other configured values, once the module has started.
\<close>

theorem radio_mutated_counterexample:
  "radioModule (example_params\<lparr>radioModule := Some example_radio\<rparr>) = Some example_radio \<and>
   loRaRadio (startup example_consts (example_params\<lparr>radioModule := Some example_radio\<rparr>) 0
                (constructed (\<lambda>i. SID_COUNT) (\<lambda>n. 1 / 2) (\<lambda>n. 0))) =
     Some \<lparr>loRaTP = 14, loRaCF = 868000000, loRaSF = 12, loRaBW = 125000, loRaCR = 4\<rparr> \<and>
   \<lparr>loRaTP = 14, loRaCF = 868000000, loRaSF = 12, loRaBW = 125000, loRaCR = 4\<rparr> \<noteq> example_radio"
  by (simp add: startup_cases initialize0_frame scheduleNext_frame applyInitialLoRaParams_radio
        example_consts_def example_params_def example_radio_def)

text \<open>
  C8. If no radio was located at startup, the pointer is null after startup and stays
  null whatever the host delivers. Everything the module sends over its lifetime is sent
  on the gate \<open>socketOut\<close> and carries no transmission-metadata tag. At any later
  wake-up at which some quantity is due, the effects of the call are the readings'
  signals, with no send among them, followed by exactly one send on \<open>socketOut\<close> and
  the packets-sent signal: the packet sent is the cycle's record (the bitmap of the
  quantities due, the readings of the cycle, the node's path, the time of the wake-up,
  the size computed from the bitmap) with no tag attached. The callback
  \<open>handleMessage\<close> has the same effects.
\<close>

theorem no_radio_untagged_but_sent:
  assumes "radioModule p = None"
  shows "let w0 = startup hc p t0 (constructed ids us zs);
             r = run hc p evs w0;
             st = scan_sensors hc now (snd r);
             bm = due_bitmap hc now (snd r);
             uplink = \<lparr>getName = ''sensorAggUplink'',
                       payload =
                         \<lparr>getBitmap = bm, getTemperature = temperature (vars st),
                          getNo2 = no2 (vars st), getHumidity = humidity (vars st),
                          getCounter = counterVal (vars st), getNodeId = fullPath p,
                          getCreatedAt = now,
                          getChunkLength =
                            wire_bytes hc (basePayloadBytes (snd r))
                              (par_counterPayloadBytes p) bm\<rparr>,
                       loRaTag = None\<rparr>;
             es = out st @ [Send uplink ''socketOut'', Emit sigPktSent (LongValue bm)]
         in loRaRadio w0 = None \<and> loRaRadio (snd r) = None \<and>
            (\<forall>pkt \<in> set (sent_packets (fst r)). loRaTag pkt = None) \<and>
            (\<forall>x \<in> set (sends (fst r)). snd x = ''socketOut'' \<and> loRaTag (fst x) = None) \<and>
            (presence_bits hc \<and>
             (\<exists>i < sid_value SID_COUNT. nextDue (sensors (snd r) ! i) \<le> now) \<longrightarrow>
               fst (sampleAndSendIfDue hc p now (snd r)) = es \<and>
               fst (handleMessage hc p now SchedulerMsg (snd r)) = es \<and>
               sends es = [(uplink, ''socketOut'')] \<and>
               sent_packets (fst (sampleAndSendIfDue hc p now (snd r))) = [uplink])"
proof -
  let ?w0 = "startup hc p t0 (constructed ids us zs)"
  let ?r = "run hc p evs ?w0"
  let ?st = "scan_sensors hc now (snd ?r)"
  let ?bm = "due_bitmap hc now (snd ?r)"
  let ?uplink = "\<lparr>getName = ''sensorAggUplink'',
                   payload =
                     \<lparr>getBitmap = ?bm, getTemperature = temperature (vars ?st),
                      getNo2 = no2 (vars ?st), getHumidity = humidity (vars ?st),
                      getCounter = counterVal (vars ?st), getNodeId = fullPath p,
                      getCreatedAt = now,
                      getChunkLength =
                        wire_bytes hc (basePayloadBytes (snd ?r))
                          (par_counterPayloadBytes p) ?bm\<rparr>,
                   loRaTag = None\<rparr>"
  let ?es = "out ?st @ [Send ?uplink ''socketOut'', Emit sigPktSent (LongValue ?bm)]"
  have n0: "loRaRadio ?w0 = None" using assms by (rule startup_no_radio)
  have n1: "loRaRadio (snd ?r) = None" by (simp add: run_radio n0)
  have ok: "sensors_ok (snd ?r)" by (intro run_sensors_ok startup_sensors_ok)
  have bm: "bitmap (vars ?st) = ?bm" using ok by (rule scan_due_bitmap)
  have tags: "\<forall>pkt \<in> set (sent_packets (fst ?r)). loRaTag pkt = None"
    using n0 by (rule run_untagged)
  have gates: "\<forall>x \<in> set (sends (fst ?r)). snd x = ''socketOut'' \<and> loRaTag (fst x) = None"
    using n0 by (rule run_sends_uplink)
  have se: "sends ?es = [(?uplink, ''socketOut'')]"
    by (simp add: sends_append scan_sends)
  have sent: "fst (sampleAndSendIfDue hc p now (snd ?r)) = ?es \<and>
              fst (handleMessage hc p now SchedulerMsg (snd ?r)) = ?es \<and>
              sends ?es = [(?uplink, ''socketOut'')] \<and>
              sent_packets (fst (sampleAndSendIfDue hc p now (snd ?r))) = [?uplink]"
    if pb: "presence_bits hc"
      and due: "\<exists>i < sid_value SID_COUNT. nextDue (sensors (snd ?r) ! i) \<le> now"
  proof -
    have ne: "bitmap (vars ?st) \<noteq> SB_NONE hc"
      unfolding bm using pb due by (rule some_due_bitmap)
    have eff: "fst (sampleAndSendIfDue hc p now (snd ?r)) = ?es"
      using sampleAndSendIfDue_no_radio[OF n1 ne, of p] by (simp only: bm)
    have hm: "fst (handleMessage hc p now SchedulerMsg (snd ?r)) = ?es"
      by (simp only: handleMessage_scheduler fst_conv eff)
    have sp: "sent_packets (fst (sampleAndSendIfDue hc p now (snd ?r))) = [?uplink]"
      unfolding eff by (simp add: sent_packets_append scan_sent)
    show ?thesis using eff hm se sp by (intro conjI)
  qed
  show ?thesis
    unfolding Let_def using n0 n1 tags gates sent by blast
qed

theorem no_radio_untagged_but_sent_witness:
  "radioModule example_params = None \<and> presence_bits example_consts \<and>
   (let w0 = startup example_consts example_params 0
               (constructed (\<lambda>i. SID_COUNT) (\<lambda>n. 1 / 2) (\<lambda>n. 0));
        r = run example_consts example_params [TimerFires] w0;
        es = fst (sampleAndSendIfDue example_consts example_params 10 (snd r))
    in loRaRadio w0 = None \<and> sends (fst r) \<noteq> [] \<and>
       list_all (\<lambda>x. snd x = ''socketOut'' \<and> loRaTag (fst x) = None) (sends (fst r)) \<and>
       nextDue (sensors (snd r) ! 0) \<le> 10 \<and>
       (\<exists>pkt. sends es = [(pkt, ''socketOut'')] \<and>
              last es = Emit sigPktSent (LongValue 13) \<and>
              getName pkt = ''sensorAggUplink'' \<and> loRaTag pkt = None \<and>
              getBitmap (payload pkt) = 13 \<and> getCreatedAt (payload pkt) = 10 \<and>
              getNodeId (payload pkt) = ''net.node[0].app'' \<and>
              getChunkLength (payload pkt) = 39))"
proof -
  let ?v = "handleMessage example_consts example_params 5 SchedulerMsg (example_node 10 20 30 5)"
  have none: "radioModule example_params = None" by (simp add: example_params_def)
  have cfg: "fullPath example_params = ''net.node[0].app''"
    "par_counterPayloadBytes example_params = 4"
    by (simp_all add: example_params_def)
  have due: "\<exists>i < sid_value SID_COUNT. nextDue (sensors (snd ?v) ! i) \<le> 10"
    using example_first_event_temperature by (intro exI[of _ 0]) simp
  have nonempty: "sends (fst ?v) \<noteq> []"
    using example_first_event_sent
    by (auto simp: handleMessage_scheduler sampleAndSendIfDue_sends)
  note inst = no_radio_untagged_but_sent
            [OF none, of example_consts 0 "\<lambda>i. SID_COUNT" "\<lambda>n. 1 / 2" "\<lambda>n. 0" "[TimerFires]" 10,
             unfolded Let_def example_startup example_first_event example_first_event_state cfg
               example_wire_bytes_13]
  show ?thesis
    unfolding Let_def example_startup example_first_event
    using inst due nonempty
    by (auto simp: none example_consts_presence example_first_event_temperature list_all_iff)
qed

section \<open>The counter\<close>

text \<open>
  C7. When the counter quantity fires, its counter becomes the old value plus one and
  that value is emitted; the random streams play no part in it; read as a signed
  integer the value grows by exactly one as long as it is below the largest \<open>int\<close>.
  From startup, where the counter is 0, the values emitted on the counter signal over
  any sequence of events are 1, 2, ..., n in order (for fewer than \<open>2^31\<close> firings);
  with five firings they are 1, 2, 3, 4, 5.
\<close>

theorem counter_increments_by_one:
  "(sensors_ok w \<and> nextDue (sensors w ! sid_value SID_COUNTER) \<le> now \<longrightarrow>
      counter (sensors (snd (sampleAndSendIfDue hc p now w)) ! sid_value SID_COUNTER) =
        counter (sensors w ! sid_value SID_COUNTER) + 1 \<and>
      emitted sigCounter (fst (sampleAndSendIfDue hc p now w)) =
        [LongValue (sint (counter (sensors w ! sid_value SID_COUNTER) + 1))] \<and>
      (\<forall>u g. counter (sensors (snd (sampleAndSendIfDue hc p now (w\<lparr>unif := u, gauss := g\<rparr>)))
                        ! sid_value SID_COUNTER) =
             counter (sensors w ! sid_value SID_COUNTER) + 1) \<and>
      (sint (counter (sensors w ! sid_value SID_COUNTER)) < 2147483647 \<longrightarrow>
         sint (counter (sensors (snd (sampleAndSendIfDue hc p now w)) ! sid_value SID_COUNTER)) =
           sint (counter (sensors w ! sid_value SID_COUNTER)) + 1)) \<and>
   (let es = fst (run hc p evs (startup hc p t0 (constructed ids us zs)));
        n = length (emitted sigCounter es)
    in (n < 2 ^ 31 \<longrightarrow> emitted sigCounter es = map (\<lambda>j. LongValue (int j)) [1..<Suc n]) \<and>
       (n = 5 \<longrightarrow>
          emitted sigCounter es =
            [LongValue 1, LongValue 2, LongValue 3, LongValue 4, LongValue 5]))"
proof (intro conjI impI allI)
  assume a: "sensors_ok w \<and> nextDue (sensors w ! sid_value SID_COUNTER) \<le> now"
  then have ok: "sensors_ok w" and due: "nextDue (sensors w ! 3) \<le> now" by simp_all
  show c: "counter (sensors (snd (sampleAndSendIfDue hc p now w)) ! sid_value SID_COUNTER) =
        counter (sensors w ! sid_value SID_COUNTER) + 1"
    using due by (simp add: sampleAndSendIfDue_counter(2)[OF ok])
  show "emitted sigCounter (fst (sampleAndSendIfDue hc p now w)) =
        [LongValue (sint (counter (sensors w ! sid_value SID_COUNTER) + 1))]"
    using due by (simp add: sampleAndSendIfDue_counter(1)[OF ok])
  show "counter (sensors (snd (sampleAndSendIfDue hc p now (w\<lparr>unif := u, gauss := g\<rparr>)))
                        ! sid_value SID_COUNTER) =
             counter (sensors w ! sid_value SID_COUNTER) + 1" for u g
  proof -
    have ok': "sensors_ok (w\<lparr>unif := u, gauss := g\<rparr>)" using ok by (simp add: sensors_ok_def)
    show ?thesis using due by (simp add: sampleAndSendIfDue_counter(2)[OF ok'])
  qed
  show "sint (counter (sensors (snd (sampleAndSendIfDue hc p now w)) ! sid_value SID_COUNTER)) =
           sint (counter (sensors w ! sid_value SID_COUNTER)) + 1"
    if "sint (counter (sensors w ! sid_value SID_COUNTER)) < 2147483647"
    unfolding c using that by (rule sint_succ_32)
next
  let ?es = "fst (run hc p evs (startup hc p t0 (constructed ids us zs)))"
  have seq: "emitted sigCounter ?es =
               map (\<lambda>j. LongValue (int j)) [1..<Suc (length (emitted sigCounter ?es))]"
    if "length (emitted sigCounter ?es) < 2 ^ 31"
    using refl that by (rule startup_counter_values)
  have five: "emitted sigCounter ?es =
                [LongValue 1, LongValue 2, LongValue 3, LongValue 4, LongValue 5]"
    if n: "length (emitted sigCounter ?es) = 5"
  proof -
    have "emitted sigCounter ?es = map (\<lambda>j. LongValue (int j)) [1..<Suc 5]"
      using seq n by simp
    also have "[1..<Suc 5] = [1, 2, 3, 4, 5]"
      by (simp add: eval_nat_numeral upt_conv_Cons)
    finally show ?thesis by simp
  qed
  show "let es = ?es; n = length (emitted sigCounter es)
        in (n < 2 ^ 31 \<longrightarrow> emitted sigCounter es = map (\<lambda>j. LongValue (int j)) [1..<Suc n]) \<and>
           (n = 5 \<longrightarrow>
              emitted sigCounter es =
                [LongValue 1, LongValue 2, LongValue 3, LongValue 4, LongValue 5])"
    unfolding Let_def using seq five by blast
qed

theorem counter_increments_by_one_witness:
  "sensors_ok (example_node 50 60 70 10) \<and>
   nextDue (sensors (example_node 50 60 70 10) ! sid_value SID_COUNTER) \<le> 10 \<and>
   sint (counter (sensors (example_node 50 60 70 10) ! sid_value SID_COUNTER)) < 2147483647 \<and>
   counter (sensors (snd (sampleAndSendIfDue example_consts example_params 10
                            (example_node 50 60 70 10))) ! sid_value SID_COUNTER) = 1 \<and>
   emitted sigCounter (fst (sampleAndSendIfDue example_consts example_params 10
                              (example_node 50 60 70 10))) = [LongValue 1] \<and>
   length (emitted sigCounter
             (fst (run example_consts example_params
                     [TimerFires, TimerFires, TimerFires, TimerFires, TimerFires]
                     (startup example_consts example_params 0
                        (constructed (\<lambda>i. SID_COUNT) (\<lambda>n. 1 / 2) (\<lambda>n. 0)))))) = 5 \<and>
   emitted sigCounter
     (fst (run example_consts example_params
             [TimerFires, TimerFires, TimerFires, TimerFires, TimerFires]
             (startup example_consts example_params 0
                (constructed (\<lambda>i. SID_COUNT) (\<lambda>n. 1 / 2) (\<lambda>n. 0))))) =
     [LongValue 1, LongValue 2, LongValue 3, LongValue 4, LongValue 5]"
proof -
  have c0: "counter (sensors (example_node 50 60 70 10) ! 3) = 0"
    by (simp add: example_node_def)
  have len: "length (emitted sigCounter
             (fst (run example_consts example_params
                     [TimerFires, TimerFires, TimerFires, TimerFires, TimerFires]
                     (startup example_consts example_params 0
                        (constructed (\<lambda>i. SID_COUNT) (\<lambda>n. 1 / 2) (\<lambda>n. 0)))))) = 5"
    unfolding example_startup example_five by simp
  note inst = counter_increments_by_one
            [of "example_node 50 60 70 10" 10 example_consts example_params
                "[TimerFires, TimerFires, TimerFires, TimerFires, TimerFires]" 0
                "\<lambda>i. SID_COUNT" "\<lambda>n. 1 / 2" "\<lambda>n. 0"]
  have ok: "sensors_ok (example_node 50 60 70 10)" by (rule example_node_simps(1))
  have due: "nextDue (sensors (example_node 50 60 70 10) ! sid_value SID_COUNTER) \<le> 10"
    by (simp add: example_node_simps)
  have small: "sint (counter (sensors (example_node 50 60 70 10) ! sid_value SID_COUNTER))
                 < 2147483647"
    by (simp add: c0)
  from inst ok due have step:
    "counter (sensors (snd (sampleAndSendIfDue example_consts example_params 10
                            (example_node 50 60 70 10))) ! sid_value SID_COUNTER) =
       counter (sensors (example_node 50 60 70 10) ! sid_value SID_COUNTER) + 1"
    "emitted sigCounter (fst (sampleAndSendIfDue example_consts example_params 10
                              (example_node 50 60 70 10))) =
       [LongValue (sint (counter (sensors (example_node 50 60 70 10) ! sid_value SID_COUNTER) + 1))]"
    by blast+
  from inst len have five:
    "emitted sigCounter
       (fst (run example_consts example_params
               [TimerFires, TimerFires, TimerFires, TimerFires, TimerFires]
               (startup example_consts example_params 0
                  (constructed (\<lambda>i. SID_COUNT) (\<lambda>n. 1 / 2) (\<lambda>n. 0))))) =
     [LongValue 1, LongValue 2, LongValue 3, LongValue 4, LongValue 5]"
    unfolding Let_def by blast
  show ?thesis
    using ok due small step len five by (simp add: c0 del: run.simps)
qed

section \<open>Disabled quantities\<close>

text \<open>
  C5, as amended. For every quantity configured with an interval \<open>\<le> 0\<close>, \<open>nextDue\<close>
  is the sentinel \<open>SIMTIME_MAX\<close> at startup and after every event the host delivers.
  The presence bit of a disabled temperature, NO2 or counter quantity is set in no packet
  sent. The humidity bit of a disabled humidity quantity is set only in packets in which
  the temperature bit is set too, that is only by the coupled sampling.
\<close>

theorem disabled_quantity_never_fires:
  assumes "presence_bits hc"
  shows "let r = run hc p evs (startup hc p t0 (constructed ids us zs)) in
     (par_temperatureInterval p \<le> 0 \<longrightarrow>
        nextDue (sensors (snd r) ! sid_value SID_TEMPERATURE) = SIMTIME_MAX \<and>
        (\<forall>pkt \<in> set (sent_packets (fst r)).
           getBitmap (payload pkt) AND SB_TEMPERATURE hc = 0)) \<and>
     (par_no2Interval p \<le> 0 \<longrightarrow>
        nextDue (sensors (snd r) ! sid_value SID_NO2) = SIMTIME_MAX \<and>
        (\<forall>pkt \<in> set (sent_packets (fst r)). getBitmap (payload pkt) AND SB_NO2 hc = 0)) \<and>
     (par_counterInterval p \<le> 0 \<longrightarrow>
        nextDue (sensors (snd r) ! sid_value SID_COUNTER) = SIMTIME_MAX \<and>
        (\<forall>pkt \<in> set (sent_packets (fst r)). getBitmap (payload pkt) AND SB_COUNTER hc = 0)) \<and>
     (par_humidityInterval p \<le> 0 \<longrightarrow>
        nextDue (sensors (snd r) ! sid_value SID_HUMIDITY) = SIMTIME_MAX \<and>
        (\<forall>pkt \<in> set (sent_packets (fst r)).
           getBitmap (payload pkt) AND SB_HUMIDITY hc \<noteq> 0 \<longrightarrow>
           getBitmap (payload pkt) AND SB_TEMPERATURE hc \<noteq> 0))"
proof -
  let ?w0 = "startup hc p t0 (constructed ids us zs)"
  have ok: "sensors_ok ?w0" by (rule startup_sensors_ok)
  have tm: "timer_ok ?w0" by (rule startup_timer_ok)
  note bits = due_bitmap_bits[OF assms]
  have T: "nextDue (sensors (snd (run hc p evs ?w0)) ! sid_value SID_TEMPERATURE) = SIMTIME_MAX \<and>
        (\<forall>pkt \<in> set (sent_packets (fst (run hc p evs ?w0))).
           getBitmap (payload pkt) AND SB_TEMPERATURE hc = 0)"
    if "par_temperatureInterval p \<le> 0"
  proof -
    have d: "disabled ?w0 0" using that by (rule startup_disabled(1))
    have q: "due_bitmap hc t v AND SB_TEMPERATURE hc = 0"
      if "disabled v 0" and "t < SIMTIME_MAX" for v t
      using bits(1)[of t v] disabled_not_due[OF that] by simp
    show ?thesis
      using run_disabled_packets[OF ok tm d, of "\<lambda>b. b AND SB_TEMPERATURE hc = 0" hc p evs] q
      by (simp add: disabled_def)
  qed
  have N: "nextDue (sensors (snd (run hc p evs ?w0)) ! sid_value SID_NO2) = SIMTIME_MAX \<and>
        (\<forall>pkt \<in> set (sent_packets (fst (run hc p evs ?w0))).
           getBitmap (payload pkt) AND SB_NO2 hc = 0)"
    if "par_no2Interval p \<le> 0"
  proof -
    have d: "disabled ?w0 (Suc 0)" using that by (rule startup_disabled(2))
    have q: "due_bitmap hc t v AND SB_NO2 hc = 0"
      if "disabled v (Suc 0)" and "t < SIMTIME_MAX" for v t
      using bits(2)[of t v] disabled_not_due[OF that] by simp
    show ?thesis
      using run_disabled_packets[OF ok tm d, of "\<lambda>b. b AND SB_NO2 hc = 0" hc p evs] q
      by (simp add: disabled_def)
  qed
  have C: "nextDue (sensors (snd (run hc p evs ?w0)) ! sid_value SID_COUNTER) = SIMTIME_MAX \<and>
        (\<forall>pkt \<in> set (sent_packets (fst (run hc p evs ?w0))).
           getBitmap (payload pkt) AND SB_COUNTER hc = 0)"
    if "par_counterInterval p \<le> 0"
  proof -
    have d: "disabled ?w0 3" using that by (rule startup_disabled(4))
    have q: "due_bitmap hc t v AND SB_COUNTER hc = 0"
      if "disabled v 3" and "t < SIMTIME_MAX" for v t
      using bits(4)[of t v] disabled_not_due[OF that] by simp
    show ?thesis
      using run_disabled_packets[OF ok tm d, of "\<lambda>b. b AND SB_COUNTER hc = 0" hc p evs] q
      by (simp add: disabled_def)
  qed
  have H: "nextDue (sensors (snd (run hc p evs ?w0)) ! sid_value SID_HUMIDITY) = SIMTIME_MAX \<and>
        (\<forall>pkt \<in> set (sent_packets (fst (run hc p evs ?w0))).
           getBitmap (payload pkt) AND SB_HUMIDITY hc \<noteq> 0 \<longrightarrow>
           getBitmap (payload pkt) AND SB_TEMPERATURE hc \<noteq> 0)"
    if "par_humidityInterval p \<le> 0"
  proof -
    have d: "disabled ?w0 2" using that by (rule startup_disabled(3))
    have q: "due_bitmap hc t v AND SB_HUMIDITY hc \<noteq> 0 \<longrightarrow>
             due_bitmap hc t v AND SB_TEMPERATURE hc \<noteq> 0"
      if "disabled v 2" and "t < SIMTIME_MAX" for v t
      using bits(1,3)[of t v] disabled_not_due[OF that] by simp
    show ?thesis
      using run_disabled_packets[OF ok tm d,
              of "\<lambda>b. b AND SB_HUMIDITY hc \<noteq> 0 \<longrightarrow> b AND SB_TEMPERATURE hc \<noteq> 0" hc p evs] q
      by (simp add: disabled_def)
  qed
  show ?thesis
    unfolding Let_def using T N C H by blast
qed

theorem disabled_quantity_never_fires_witness:
  "presence_bits example_consts \<and>
   par_no2Interval example_params_T_only \<le> 0 \<and>
   par_counterInterval example_params_T_only \<le> 0 \<and>
   par_humidityInterval example_params_T_only \<le> 0 \<and>
   (let r = run example_consts example_params_T_only [TimerFires]
              (startup example_consts example_params_T_only 0
                 (constructed (\<lambda>i. SID_COUNT) (\<lambda>n. 1 / 2) (\<lambda>n. 0)))
    in sent_packets (fst r) \<noteq> [] \<and>
       nextDue (sensors (snd r) ! sid_value SID_NO2) = SIMTIME_MAX \<and>
       nextDue (sensors (snd r) ! sid_value SID_COUNTER) = SIMTIME_MAX \<and>
       nextDue (sensors (snd r) ! sid_value SID_HUMIDITY) = SIMTIME_MAX \<and>
       list_all (\<lambda>pkt. getBitmap (payload pkt) AND SB_NO2 example_consts = 0 \<and>
                       getBitmap (payload pkt) AND SB_COUNTER example_consts = 0 \<and>
                       getBitmap (payload pkt) AND SB_HUMIDITY example_consts \<noteq> 0 \<and>
                       getBitmap (payload pkt) AND SB_TEMPERATURE example_consts \<noteq> 0)
         (sent_packets (fst r))) \<and>
   par_temperatureInterval example_params_C_only \<le> 0 \<and>
   (let r = run example_consts example_params_C_only [TimerFires]
              (startup example_consts example_params_C_only 0
                 (constructed (\<lambda>i. SID_COUNT) (\<lambda>n. 1 / 2) (\<lambda>n. 0)))
    in sent_packets (fst r) \<noteq> [] \<and>
       nextDue (sensors (snd r) ! sid_value SID_TEMPERATURE) = SIMTIME_MAX \<and>
       list_all (\<lambda>pkt. getBitmap (payload pkt) AND SB_TEMPERATURE example_consts = 0)
         (sent_packets (fst r)))"
proof -
  let ?wT = "startup example_consts example_params_T_only 0
               (constructed (\<lambda>i. SID_COUNT) (\<lambda>n. 1 / 2) (\<lambda>n. 0))"
  let ?wC = "startup example_consts example_params_C_only 0
               (constructed (\<lambda>i. SID_COUNT) (\<lambda>n. 1 / 2) (\<lambda>n. 0))"
  have pT: "par_no2Interval example_params_T_only \<le> 0"
    "par_counterInterval example_params_T_only \<le> 0"
    "par_humidityInterval example_params_T_only \<le> 0"
    by (simp_all add: example_params_T_only_def)
  have pC: "par_temperatureInterval example_params_C_only \<le> 0"
    by (simp add: example_params_C_only_def)
  have dueT: "nextDue (sensors ?wT ! 0) \<le> 10" by (simp add: example_T_only_startup)
  have dueC: "nextDue (sensors ?wC ! 3) \<le> 5" by (simp add: example_C_only_startup)
  obtain pktT where
    oneT: "sent_packets (fst (run example_consts example_params_T_only [TimerFires] ?wT)) = [pktT]"
    and bmT: "getBitmap (payload pktT) = due_bitmap example_consts 10 (?wT\<lparr>scheduledAt := None\<rparr>)"
    using first_timer_packet[OF example_consts_presence startup_sensors_ok
            example_T_only_startup(1) _ dueT, of example_params_T_only]
    by auto
  have hT: "getBitmap (payload pktT) AND SB_HUMIDITY example_consts \<noteq> 0"
    unfolding bmT using dueT by (simp add: due_bitmap_bits(3)[OF example_consts_presence])
  obtain pktC where
    oneC: "sent_packets (fst (run example_consts example_params_C_only [TimerFires] ?wC)) = [pktC]"
    using first_timer_packet[OF example_consts_presence startup_sensors_ok
            example_C_only_startup(1) _ dueC, of example_params_C_only]
    by auto
  note instT = disabled_quantity_never_fires
                 [OF example_consts_presence, of example_params_T_only "[TimerFires]" 0
                    "\<lambda>i. SID_COUNT" "\<lambda>n. 1 / 2" "\<lambda>n. 0", unfolded Let_def oneT]
  note instC = disabled_quantity_never_fires
                 [OF example_consts_presence, of example_params_C_only "[TimerFires]" 0
                    "\<lambda>i. SID_COUNT" "\<lambda>n. 1 / 2" "\<lambda>n. 0", unfolded Let_def oneC]
  show ?thesis
    unfolding Let_def oneT oneC
    using instT instC pT pC hT by (simp add: example_consts_presence)
qed

text \<open>
  The claim as stated fails for the humidity quantity: with the humidity interval 0 and
  the temperature interval 10, the packet of the first wake-up has the humidity bit set.
\<close>

theorem disabled_humidity_counterexample:
  "par_humidityInterval example_params_T_only \<le> 0 \<and>
   (\<exists>pkt. sent_packets
            (fst (run example_consts example_params_T_only [TimerFires]
                    (startup example_consts example_params_T_only 0
                       (constructed (\<lambda>i. SID_COUNT) (\<lambda>n. 1 / 2) (\<lambda>n. 0))))) = [pkt] \<and>
          getBitmap (payload pkt) AND SB_HUMIDITY example_consts \<noteq> 0)"
proof -
  let ?w0 = "startup example_consts example_params_T_only 0
               (constructed (\<lambda>i. SID_COUNT) (\<lambda>n. 1 / 2) (\<lambda>n. 0))"
  have due: "nextDue (sensors ?w0 ! 0) \<le> 10" by (simp add: example_T_only_startup)
  obtain pkt where
    one: "sent_packets (fst (run example_consts example_params_T_only [TimerFires] ?w0)) = [pkt]"
    and bm: "getBitmap (payload pkt) = due_bitmap example_consts 10 (?w0\<lparr>scheduledAt := None\<rparr>)"
    using first_timer_packet[OF example_consts_presence startup_sensors_ok
            example_T_only_startup(1) _ due, of example_params_T_only]
    by auto
  have "due_bitmap example_consts 10 (?w0\<lparr>scheduledAt := None\<rparr>) AND SB_HUMIDITY example_consts
          \<noteq> 0"
    using due by (simp add: due_bitmap_bits(3)[OF example_consts_presence])
  then show ?thesis
    using one bm by (simp add: example_params_T_only_def example_params_def)
qed

section \<open>The jittered schedule\<close>




end
